theory Spec2Isabelle
  imports Complex_Main
begin

section \<open>JavaScript strings\<close>

text \<open>
  A JavaScript string is a sequence of UTF-16 code units. It is modelled as the list of
  the numeric values of its code units, so that Chinese text (captions, messages) and the
  Unicode white space that \<^verbatim>\<open>String.prototype.trim\<close> removes are represented exactly.
  ASCII literals of the source are written \<open>str ''...''\<close>.
\<close>

type_synonym jsstring = "nat list"

definition str :: "string \<Rightarrow> jsstring" where
  "str s = map of_char s"

text \<open>ECMAScript WhiteSpace and LineTerminator code units (what \<^verbatim>\<open>trim\<close> strips).\<close>

definition isWhiteSpace :: "nat \<Rightarrow> bool" where
  "isWhiteSpace c =
     (c = 9 \<or> c = 10 \<or> c = 11 \<or> c = 12 \<or> c = 13 \<or> c = 32 \<or> c = 160 \<or> c = 5760
      \<or> (8192 \<le> c \<and> c \<le> 8202) \<or> c = 8232 \<or> c = 8233 \<or> c = 8239 \<or> c = 8287
      \<or> c = 12288 \<or> c = 65279)"

definition trim :: "jsstring \<Rightarrow> jsstring" where
  "trim s = rev (dropWhile isWhiteSpace (rev (dropWhile isWhiteSpace s)))"

text \<open>
  Case conversion is modelled on the ASCII letters. The source applies it to URL components
  (ASCII after parsing), to the HTTP method (an ASCII token) and before comparisons with
  ASCII literals.
\<close>

definition toLowerCase :: "jsstring \<Rightarrow> jsstring" where
  "toLowerCase s = map (\<lambda>c. if 65 \<le> c \<and> c \<le> 90 then c + 32 else c) s"

definition toUpperCase :: "jsstring \<Rightarrow> jsstring" where
  "toUpperCase s = map (\<lambda>c. if 97 \<le> c \<and> c \<le> 122 then c - 32 else c) s"

definition endsWith :: "jsstring \<Rightarrow> jsstring \<Rightarrow> bool" where
  "endsWith s suffix =
     (length suffix \<le> length s \<and> drop (length s - length suffix) s = suffix)"

text \<open>\<^verbatim>\<open>x || ''\<close> for a value that is a string, null or undefined.\<close>

definition orEmpty :: "jsstring option \<Rightarrow> jsstring" where
  "orEmpty x = (case x of None \<Rightarrow> [] | Some s \<Rightarrow> s)"

section \<open>The caption task registry\<close>

datatype CaptionTaskStatus = WAITING | RUNNING | SUCCESS | FAILURE | CANCELLED

datatype CaptionTaskStage =
  queued | downloading | uploading | submitting | polling | fetching_result
  | done_stage | failed | cancelled

text \<open>
  \<^verbatim>\<open>snapshotCaptionTask\<close> copies every field of a task except the abort controller, so
  the task record extends the snapshot record. The task's \<^verbatim>\<open>id\<close> is the snapshot's
  \<^verbatim>\<open>taskId\<close>; \<open>aborted\<close> is \<^verbatim>\<open>task.abort.signal.aborted\<close>. Optional fields
  are \<open>None\<close> when undefined. Times are milliseconds, as \<^verbatim>\<open>Date.now()\<close> gives them.
\<close>

record Snapshot =
  taskId :: jsstring
  status :: CaptionTaskStatus
  stage :: CaptionTaskStage
  message :: "jsstring option"
  transcript :: "jsstring option"
  error :: "jsstring option"
  publicFileUrl :: "jsstring option"
  createdAt :: int
  updatedAt :: int

record CaptionTask = Snapshot +
  aborted :: bool

type_synonym registry = "jsstring \<rightharpoonup> CaptionTask"

definition CAPTION_TASK_TTL_MS :: int where
  "CAPTION_TASK_TTL_MS = 60 * 60 * 1000"

definition finished :: "CaptionTaskStatus \<Rightarrow> bool" where
  "finished s = (s = SUCCESS \<or> s = FAILURE \<or> s = CANCELLED)"

definition cleanupCaptionTasks :: "int \<Rightarrow> registry \<Rightarrow> registry" where
  "cleanupCaptionTasks now captionTasks =
     (\<lambda>k. case captionTasks k of
            None \<Rightarrow> None
          | Some task \<Rightarrow>
              (let tooOld = (now - updatedAt task > CAPTION_TASK_TTL_MS)
               in if tooOld \<and> finished (status task) then None else Some task))"

definition snapshotCaptionTask :: "CaptionTask \<Rightarrow> Snapshot" where
  "snapshotCaptionTask task =
     \<lparr> taskId = taskId task, status = status task, stage = stage task,
       message = message task, transcript = transcript task, error = error task,
       publicFileUrl = publicFileUrl task, createdAt = createdAt task,
       updatedAt = updatedAt task \<rparr>"

subsection \<open>Messages\<close>

text \<open>The Chinese literals of the source, as code units.\<close>

definition msgCancelledError :: jsstring where
  \<comment> \<open>"request cancelled.": the message of every cancellation error, and a cancelled task's error\<close>
  "msgCancelledError = [24050, 21462, 28040, 35831, 27714, 12290]"

definition msgCancelled :: jsstring where
  \<comment> \<open>"cancelled"\<close>
  "msgCancelled = [24050, 21462, 28040]"

definition msgPostOnly :: jsstring where
  \<comment> \<open>"only POST is supported"\<close>
  "msgPostOnly = [20165, 25903, 25345, 32, 80, 79, 83, 84]"

definition msgMissingTaskId :: jsstring where
  \<comment> \<open>"taskId is missing"\<close>
  "msgMissingTaskId = [32570, 23569, 32, 116, 97, 115, 107, 73, 100]"

definition msgTaskNotFound :: jsstring where
  \<comment> \<open>"the task does not exist or has expired"\<close>
  "msgTaskNotFound = [20219, 21153, 19981, 23384, 22312, 25110, 24050, 36807, 26399]"

subsection \<open>The query and cancel handlers\<close>

text \<open>\<^verbatim>\<open>sendJson(res, status, payload)\<close>: an error object or, with status 200, a snapshot.\<close>

datatype reply = JsonError nat jsstring | JsonSnapshot Snapshot

record Request =
  httpMethod :: "jsstring option"

record TaskRequest = Request +
  queryTaskId :: "jsstring option"
  bodyTaskId :: "jsstring option"

text \<open>
  \<open>queryTaskId\<close> is \<^verbatim>\<open>reqUrl.searchParams.get('taskId')\<close>; \<open>bodyTaskId\<close> is the
  \<^verbatim>\<open>taskId\<close> of the JSON body, \<open>None\<close> when the body is empty, is not valid JSON (the
  handler ignores that error) or has no such field.
\<close>

definition isPost :: "'a Request_scheme \<Rightarrow> bool" where
  "isPost req = (toUpperCase (case httpMethod req of None \<Rightarrow> str ''GET'' | Some m \<Rightarrow>
     if m = [] then str ''GET'' else m) = str ''POST'')"

definition handleCaptionQuery :: "int \<Rightarrow> TaskRequest \<Rightarrow> registry \<Rightarrow> reply \<times> registry" where
  "handleCaptionQuery now req captionTasks0 =
     (let captionTasks = cleanupCaptionTasks now captionTasks0;
          tid = orEmpty (queryTaskId req)
      in if tid = [] then (JsonError 400 msgMissingTaskId, captionTasks)
         else case captionTasks tid of
                None \<Rightarrow> (JsonError 404 msgTaskNotFound, captionTasks)
              | Some task \<Rightarrow> (JsonSnapshot (snapshotCaptionTask task), captionTasks))"

definition cancelTaskId :: "TaskRequest \<Rightarrow> jsstring" where
  "cancelTaskId req =
     (let tid = orEmpty (queryTaskId req)
      in if tid = [] then trim (orEmpty (bodyTaskId req)) else tid)"

text \<open>
  The cancel handler sweeps, checks the method and then awaits the request body. Lines
  1527-1540, after that await, run without interruption on the registry as it is then:
  they are \<open>cancelTask\<close>, with \<open>now'\<close> the clock stored in \<^verbatim>\<open>updatedAt\<close>. The task object
  is mutated in place; the model stores the updated record under the same key.
\<close>

definition cancelTask :: "int \<Rightarrow> jsstring \<Rightarrow> registry \<Rightarrow> reply \<times> registry" where
  "cancelTask now' tid captionTasks =
     (if tid = [] then (JsonError 400 msgMissingTaskId, captionTasks)
      else case captionTasks tid of
             None \<Rightarrow> (JsonError 404 msgTaskNotFound, captionTasks)
           | Some task \<Rightarrow>
               if status task = RUNNING \<or> status task = WAITING
               then
                 let task' = task\<lparr> aborted := True, status := CANCELLED,
                                  stage := cancelled, message := Some msgCancelled,
                                  error := Some msgCancelledError,
                                  updatedAt := now' \<rparr>
                 in (JsonSnapshot (snapshotCaptionTask task'), captionTasks(tid \<mapsto> task'))
               else (JsonSnapshot (snapshotCaptionTask task), captionTasks))"

text \<open>
  The whole handler, when no other handler and no job runs while it awaits the body;
  \<open>now\<close> is the clock read by the sweep.
\<close>

definition handleCaptionCancel ::
  "int \<Rightarrow> int \<Rightarrow> TaskRequest \<Rightarrow> registry \<Rightarrow> reply \<times> registry" where
  "handleCaptionCancel now now' req captionTasks0 =
     (let captionTasks = cleanupCaptionTasks now captionTasks0
      in if \<not> isPost req then (JsonError 405 msgPostOnly, captionTasks)
         else cancelTask now' (cancelTaskId req) captionTasks)"

section \<open>Errors and URL guards\<close>

text \<open>A thrown \<^verbatim>\<open>Error\<close>: its \<^verbatim>\<open>name\<close> and its \<^verbatim>\<open>message\<close>.\<close>

datatype exn = Exn (exn_name: jsstring) (exn_message: jsstring)

definition newError :: "jsstring \<Rightarrow> exn" where
  "newError m = Exn (str ''Error'') m"

definition msgBadUrl :: jsstring where
  \<comment> \<open>"malformed link"\<close>
  "msgBadUrl = [38142, 25509, 26684, 24335, 38169, 35823]"

definition msgHttpOnly :: jsstring where
  \<comment> \<open>"only http/https links are supported"\<close>
  "msgHttpOnly = [20165, 25903, 25345, 32, 104, 116, 116, 112, 47, 104, 116, 116, 112, 115, 32,
     38142, 25509]"

definition msgUnsafeLink :: jsstring where
  \<comment> \<open>"unsafe link (possibly a local-machine/intranet address)"\<close>
  "msgUnsafeLink = [19981, 23433, 20840, 30340, 38142, 25509, 65288, 21487, 33021, 20026, 26412,
     26426, 47, 20869, 32593, 22320, 22336, 65289]"

definition msgDouyinOnly :: jsstring where
  \<comment> \<open>"only Douyin links are supported (douyin.com / iesdouyin.com)"\<close>
  "msgDouyinOnly = [20165, 25903, 25345, 25238, 38899, 38142, 25509, 65288, 100, 111, 117, 121,
     105, 110, 46, 99, 111, 109, 32, 47, 32, 105, 101, 115, 100, 111, 117, 121, 105, 110, 46, 99,
     111, 109, 65289]"

text \<open>
  The fields of a parsed \<^verbatim>\<open>URL\<close> object that the source reads; \<open>href\<close> is what
  \<^verbatim>\<open>toString()\<close> returns. Every function of the source that takes a URL string begins
  with \<^verbatim>\<open>new URL(url)\<close>, a constructor of the platform: the model takes the result of
  that constructor, \<open>None\<close> when it throws.
\<close>

record URL =
  protocol :: jsstring
  hostname :: jsstring
  href :: jsstring

definition assertSafeExternalHttpUrl :: "URL option \<Rightarrow> exn + URL" where
  "assertSafeExternalHttpUrl url =
     (case url of
        None \<Rightarrow> Inl (newError msgBadUrl)
      | Some parsed \<Rightarrow>
          (let proto = toLowerCase (protocol parsed)
           in if proto \<noteq> str ''http:'' \<and> proto \<noteq> str ''https:''
              then Inl (newError msgHttpOnly)
              else
                let host = toLowerCase (hostname parsed)
                in if host = str ''localhost'' \<or> host = str ''0.0.0.0''
                      \<or> host = str ''127.0.0.1'' \<or> host = str ''::1''
                      \<or> endsWith host (str ''.local'')
                   then Inl (newError msgUnsafeLink)
                   else Inr parsed))"

definition safeUrlHost :: "URL \<Rightarrow> bool" where
  "safeUrlHost url =
     (let host = toLowerCase (hostname url)
      in host = str ''douyin.com'' \<or> endsWith host (str ''.douyin.com'')
         \<or> host = str ''iesdouyin.com'' \<or> endsWith host (str ''.iesdouyin.com''))"

definition assertSafeDouyinUrl :: "URL option \<Rightarrow> exn + URL" where
  "assertSafeDouyinUrl url =
     (case url of
        None \<Rightarrow> Inl (newError msgBadUrl)
      | Some parsed \<Rightarrow>
          (let proto = toLowerCase (protocol parsed)
           in if proto \<noteq> str ''http:'' \<and> proto \<noteq> str ''https:''
              then Inl (newError msgHttpOnly)
              else if \<not> safeUrlHost parsed then Inl (newError msgDouyinOnly)
              else Inr parsed))"

section \<open>The Flash recognizer's response\<close>

text \<open>
  A JavaScript number: a finite double (a rational), an infinity or NaN.
  \<^verbatim>\<open>Number(s)\<close> is a conversion of the platform; the model takes it as the parameter
  \<open>toNumber\<close>, so every result below holds for the real conversion. Only
  \<^verbatim>\<open>Number('0') = 0\<close> is built in, for the default of an absent header.
\<close>

datatype jsnum = NaN | Fin rat | PosInfinity | NegInfinity

definition truthyNum :: "jsnum \<Rightarrow> bool" where
  "truthyNum x = (x \<noteq> NaN \<and> x \<noteq> Fin 0)"

definition jsNumber :: "(jsstring \<Rightarrow> jsnum) \<Rightarrow> jsstring \<Rightarrow> jsnum" where
  "jsNumber toNumber s = (if s = str ''0'' then Fin 0 else toNumber s)"

text \<open>
  A \<^verbatim>\<open>fetch\<close> response: \<^verbatim>\<open>ok\<close>, \<^verbatim>\<open>status\<close> and the three headers the
  adapter reads with \<^verbatim>\<open>headers.get\<close> (case-insensitive, \<open>None\<close> when absent).
\<close>

record Response =
  ok :: bool
  httpStatus :: nat
  xApiStatusCode :: "jsstring option"
  xApiMessage :: "jsstring option"
  xTtLogid :: "jsstring option"

text \<open>
  The parsed response body, as far as the adapter reads it: \<^verbatim>\<open>result.text\<close>,
  \<^verbatim>\<open>message\<close> and \<^verbatim>\<open>error\<close>, each a string or absent (values of other JSON
  types are outside this model).
\<close>

record FlashBody =
  resultText :: "jsstring option"
  bodyMessage :: "jsstring option"
  bodyError :: "jsstring option"

definition msgFlashHttpFailed :: jsstring where
  \<comment> \<open>"Doubao speech recognition failed (HTTP "\<close>
  "msgFlashHttpFailed = [35910, 21253, 35821, 38899, 35782, 21035, 22833, 36133, 32, 40, 72, 84,
     84, 80, 32]"

definition msgFlashFailed :: jsstring where
  \<comment> \<open>"Doubao speech recognition failed"\<close>
  "msgFlashFailed = [35910, 21253, 35821, 38899, 35782, 21035, 22833, 36133]"

definition msgFlashEmpty :: jsstring where
  \<comment> \<open>"Doubao speech recognition finished, but the returned text is empty"\<close>
  "msgFlashEmpty = [35910, 21253, 35821, 38899, 35782, 21035, 23436, 25104, 65292, 20294, 36820,
     22238, 25991, 26412, 20026, 31354]"

definition logidSuffix :: "jsstring \<Rightarrow> jsstring" where
  \<comment> \<open>\<^verbatim>\<open>logid ? `(logid=${logid})` : ''\<close>, with full-width parentheses\<close>
  "logidSuffix logid = (if logid = [] then [] else [65288] @ str ''logid='' @ logid @ [65289])"

function showNat :: "nat \<Rightarrow> jsstring" where
  "showNat n = (if n < 10 then [48 + n] else showNat (n div 10) @ [48 + n mod 10])"
  by pat_completeness auto
termination
  by (relation "measure id") auto

definition tailText :: "jsstring \<Rightarrow> nat \<Rightarrow> jsstring" where
  "tailText s maxChars = (if length s \<le> maxChars then s else drop (length s - maxChars) s)"

fun joinWith :: "jsstring \<Rightarrow> jsstring list \<Rightarrow> jsstring" where
  "joinWith sep [] = []"
| "joinWith sep [x] = x"
| "joinWith sep (x # y # ys) = x @ sep @ joinWith sep (y # ys)"

text \<open>
  Lines 1201-1241 of the adapter: what it returns or throws once the response \<open>apiRes\<close>
  has arrived and its body has been read as \<open>apiText\<close>; \<open>parsed\<close> is
  \<^verbatim>\<open>JSON.parse(apiText)\<close>, \<open>None\<close> when that throws or gives null.
\<close>

definition flashResult ::
  "(jsstring \<Rightarrow> jsnum) \<Rightarrow> Response \<Rightarrow> jsstring \<Rightarrow> FlashBody option \<Rightarrow> exn + jsstring" where
  "flashResult toNumber apiRes apiText parsed =
     (let statusCode = orEmpty (xApiStatusCode apiRes);
          statusMessage = orEmpty (xApiMessage apiRes);
          logid = orEmpty (xTtLogid apiRes);
          apiData = (if apiText = [] then None else parsed)
      in if \<not> ok apiRes
         then
           let extra = joinWith (str '', '')
                 (filter (\<lambda>x. x \<noteq> [])
                    [if statusCode = [] then [] else str ''X-Api-Status-Code='' @ statusCode,
                     if statusMessage = [] then [] else str ''X-Api-Message='' @ statusMessage,
                     if logid = [] then [] else str ''X-Tt-Logid='' @ logid])
           in Inl (newError
                (msgFlashHttpFailed @ showNat (httpStatus apiRes) @ str '')''
                 @ (if extra = [] then [] else [65306] @ extra)
                 @ (if apiText = [] then [] else [10] @ tailText apiText 1200)))
         else
           let statusNum = jsNumber toNumber (if statusCode = [] then str ''0'' else statusCode)
           in if truthyNum statusNum \<and> statusNum \<noteq> Fin 20000000
              then
                let msg =
                  (if statusMessage \<noteq> [] then statusMessage
                   else if orEmpty (Option.bind apiData bodyMessage) \<noteq> []
                     then orEmpty (Option.bind apiData bodyMessage)
                   else if orEmpty (Option.bind apiData bodyError) \<noteq> []
                     then orEmpty (Option.bind apiData bodyError)
                   else msgFlashFailed)
                in Inl (newError (msg @ logidSuffix logid))
              else
                let txt = trim (orEmpty (Option.bind apiData resultText))
                in if txt = [] then Inl (newError (msgFlashEmpty @ logidSuffix logid))
                   else Inr txt)"

section \<open>The background job\<close>

text \<open>
  An \<^verbatim>\<open>async\<close> function runs until its next \<^verbatim>\<open>await\<close> and is resumed when the
  awaited operation settles. It is modelled as a resumption: a tree whose nodes are the
  effects of the source in program order. \<open>OnStage\<close> is a call of the \<^verbatim>\<open>onStage\<close>
  callback, \<open>SignalAborted\<close> a read of \<^verbatim>\<open>signal.aborted\<close>, and each \<open>Await...\<close> node
  is one \<^verbatim>\<open>await\<close> of the source (named by its label), whose continuation takes the
  rejection (\<open>Inl\<close>) or the value (\<open>Inr\<close>) the operation settles with.
\<close>

datatype 'a proc =
    Return 'a
  | Throw exn
  | OnStage CaptionTaskStage jsstring "'a proc"
  | SignalAborted "bool \<Rightarrow> 'a proc"
  | AwaitFetch string "exn + Response \<Rightarrow> 'a proc"
  | AwaitBuffer string "exn + nat \<Rightarrow> 'a proc"
  | AwaitDone string "exn + unit \<Rightarrow> 'a proc"
  | AwaitExit string "exn + int option \<times> jsstring \<Rightarrow> 'a proc"
  | AwaitText string "jsstring \<times> FlashBody option \<Rightarrow> 'a proc"

text \<open>Sequencing (\<^verbatim>\<open>const x = await p; rest(x)\<close>) and \<^verbatim>\<open>try ... finally\<close>.\<close>

primrec bindP :: "'a proc \<Rightarrow> ('a \<Rightarrow> 'b proc) \<Rightarrow> 'b proc" where
  "bindP (Return a) f = f a"
| "bindP (Throw e) f = Throw e"
| "bindP (OnStage s m p) f = OnStage s m (bindP p f)"
| "bindP (SignalAborted k) f = SignalAborted (\<lambda>b. bindP (k b) f)"
| "bindP (AwaitFetch l k) f = AwaitFetch l (\<lambda>r. bindP (k r) f)"
| "bindP (AwaitBuffer l k) f = AwaitBuffer l (\<lambda>r. bindP (k r) f)"
| "bindP (AwaitDone l k) f = AwaitDone l (\<lambda>r. bindP (k r) f)"
| "bindP (AwaitExit l k) f = AwaitExit l (\<lambda>r. bindP (k r) f)"
| "bindP (AwaitText l k) f = AwaitText l (\<lambda>r. bindP (k r) f)"

primrec tryFinally :: "'a proc \<Rightarrow> unit proc \<Rightarrow> 'a proc" where
  "tryFinally (Return a) fin = bindP fin (\<lambda>_. Return a)"
| "tryFinally (Throw e) fin = bindP fin (\<lambda>_. Throw e)"
| "tryFinally (OnStage s m p) fin = OnStage s m (tryFinally p fin)"
| "tryFinally (SignalAborted k) fin = SignalAborted (\<lambda>b. tryFinally (k b) fin)"
| "tryFinally (AwaitFetch l k) fin = AwaitFetch l (\<lambda>r. tryFinally (k r) fin)"
| "tryFinally (AwaitBuffer l k) fin = AwaitBuffer l (\<lambda>r. tryFinally (k r) fin)"
| "tryFinally (AwaitDone l k) fin = AwaitDone l (\<lambda>r. tryFinally (k r) fin)"
| "tryFinally (AwaitExit l k) fin = AwaitExit l (\<lambda>r. tryFinally (k r) fin)"
| "tryFinally (AwaitText l k) fin = AwaitText l (\<lambda>r. tryFinally (k r) fin)"

definition msgExtracting :: jsstring where
  \<comment> \<open>"extracting audio..."\<close>
  "msgExtracting = [25552, 21462, 38899, 39057, 20013, 46, 46, 46]"

definition msgDownloading :: jsstring where
  \<comment> \<open>"downloading video..."\<close>
  "msgDownloading = [19979, 36733, 35270, 39057, 20013, 46, 46, 46]"

definition msgSubmitting :: jsstring where
  \<comment> \<open>"submitting to Doubao speech recognition..."\<close>
  "msgSubmitting = [25552, 20132, 35910, 21253, 35821, 38899, 35782, 21035, 20013, 46, 46, 46]"

definition msgExtractFailed :: jsstring where
  \<comment> \<open>"audio extraction failed (ffmpeg exit="\<close>
  "msgExtractFailed = [25552, 21462, 38899, 39057, 22833, 36133, 65288, 102, 102, 109, 112, 101,
     103, 32, 101, 120, 105, 116, 61]"

definition msgExtractEmpty :: jsstring where
  \<comment> \<open>"audio extraction failed: the output is empty"\<close>
  "msgExtractEmpty = [25552, 21462, 38899, 39057, 22833, 36133, 65306, 36755, 20986, 20026, 31354]"

definition msgDownloadFailed :: jsstring where
  \<comment> \<open>"video download failed: access may be restricted (HTTP "\<close>
  "msgDownloadFailed = [19979, 36733, 35270, 39057, 22833, 36133, 65306, 21487, 33021, 26435,
     38480, 21463, 38480, 32, 40, 72, 84, 84, 80, 32]"

definition msgMissingAppKey :: jsstring where
  \<comment> \<open>"Doubao speech AppID (X-Api-App-Key) is missing"\<close>
  "msgMissingAppKey = [32570, 23569, 35910, 21253, 35821, 38899, 32, 65, 112, 112, 73, 68, 65288,
     88, 45, 65, 112, 105, 45, 65, 112, 112, 45, 75, 101, 121, 65289]"

definition msgMissingAccessKey :: jsstring where
  \<comment> \<open>"Doubao speech Access Token (X-Api-Access-Key) is missing"\<close>
  "msgMissingAccessKey = [32570, 23569, 35910, 21253, 35821, 38899, 32, 65, 99, 99, 101, 115, 115,
     32, 84, 111, 107, 101, 110, 65288, 88, 45, 65, 112, 105, 45, 65, 99, 99, 101, 115, 115, 45,
     75, 101, 121, 65289]"

definition showExitCode :: "int option \<Rightarrow> jsstring" where
  \<comment> \<open>\<^verbatim>\<open>`${code}`\<close> for the exit code of the child process, null when a signal killed it\<close>
  "showExitCode code =
     (case code of
        None \<Rightarrow> str ''null''
      | Some c \<Rightarrow> (if c < 0 then str ''-'' @ showNat (nat (- c)) else showNat (nat c)))"

text \<open>
  \<^verbatim>\<open>extractMp3FromVideoBuffer\<close>; the value returned is the byte length of the MP3
  buffer. The \<open>AwaitExit\<close> node is the promise around the spawned ffmpeg: it settles with
  the child's \<^verbatim>\<open>error\<close> event (\<open>Inl\<close>) or with the exit code and the collected
  stderr of its \<^verbatim>\<open>close\<close> event.
\<close>

definition extractMp3FromVideoBuffer :: "nat proc" where
  "extractMp3FromVideoBuffer =
     SignalAborted (\<lambda>ab.
       if ab then Throw (newError msgCancelledError)
       else
         OnStage uploading msgExtracting
          (AwaitDone ''getFfmpegPath'' (\<lambda>r. case r of Inl e \<Rightarrow> Throw e | Inr _ \<Rightarrow>
           AwaitDone ''mkdtemp'' (\<lambda>r. case r of Inl e \<Rightarrow> Throw e | Inr _ \<Rightarrow>
           tryFinally
             (AwaitDone ''writeFile'' (\<lambda>r. case r of Inl e \<Rightarrow> Throw e | Inr _ \<Rightarrow>
              AwaitExit ''ffmpeg'' (\<lambda>r. case r of
                  Inl e \<Rightarrow> Throw e
                | Inr (code, stderr) \<Rightarrow>
                    SignalAborted (\<lambda>ab'.
                      if ab' then Throw (newError msgCancelledError)
                      else if code = Some 0
                      then AwaitBuffer ''readFile'' (\<lambda>r. case r of
                               Inl e \<Rightarrow> Throw e
                             | Inr byteLength \<Rightarrow>
                                 if byteLength = 0 then Throw (newError msgExtractEmpty)
                                 else Return byteLength)
                      else
                        let hint = (if trim stderr = [] then []
                                    else [65306] @ tailText (trim stderr) 1200)
                        in Throw (newError
                             (msgExtractFailed @ showExitCode code @ [65289] @ hint))))))
             (AwaitDone ''rm'' (\<lambda>_. Return ()))))))"

record DoubaoBigasrFlashConfig =
  appKey :: jsstring
  accessKey :: jsstring

definition transcribeWithDoubaoBigasrFlash ::
  "(jsstring \<Rightarrow> jsnum) \<Rightarrow> URL option \<Rightarrow> DoubaoBigasrFlashConfig \<Rightarrow> jsstring proc" where
  "transcribeWithDoubaoBigasrFlash toNumber videoUrl cfg =
     (case assertSafeExternalHttpUrl videoUrl of
        Inl e \<Rightarrow> Throw e
      | Inr safeUrl \<Rightarrow>
          if trim (appKey cfg) = [] then Throw (newError msgMissingAppKey)
          else if trim (accessKey cfg) = [] then Throw (newError msgMissingAccessKey)
          else
            OnStage downloading msgDownloading
             (AwaitFetch ''fetch(safeUrl)'' (\<lambda>r. case r of Inl e \<Rightarrow> Throw e | Inr videoRes \<Rightarrow>
                if \<not> ok videoRes
                then Throw (newError (msgDownloadFailed @ showNat (httpStatus videoRes) @ str '')''))
                else
                  AwaitBuffer ''arrayBuffer'' (\<lambda>r. case r of Inl e \<Rightarrow> Throw e | Inr _ \<Rightarrow>
                  bindP extractMp3FromVideoBuffer (\<lambda>mp3Buf.
                  OnStage submitting msgSubmitting
                   (AwaitFetch ''fetch(recognize/flash)'' (\<lambda>r. case r of
                        Inl e \<Rightarrow> Throw e
                      | Inr apiRes \<Rightarrow>
                          AwaitText ''text'' (\<lambda>(apiText, parsed).
                            case flashResult toNumber apiRes apiText parsed of
                              Inl e \<Rightarrow> Throw e
                            | Inr txt \<Rightarrow> Return txt))))))))"

text \<open>
  The detached job of \<^verbatim>\<open>handleCaptionCreate\<close> (lines 1450-1496). Its \<^verbatim>\<open>try\<close>
  body is \<open>captionJob\<close>; the Paraformer adapter (lines 1244-1351) is not modelled and is
  taken as the parameter \<open>paraformer\<close>. The job returns the transcript and the
  \<^verbatim>\<open>publicUrl\<close>.
\<close>

type_synonym job = "(jsstring \<times> jsstring option) proc"

definition captionJob ::
  "(jsstring \<Rightarrow> jsnum) \<Rightarrow> (jsstring \<times> jsstring) proc \<Rightarrow> jsstring \<Rightarrow> URL option
     \<Rightarrow> jsstring \<Rightarrow> jsstring \<Rightarrow> job" where
  "captionJob toNumber paraformer prov videoUrl appId token =
     (if prov = str ''doubao''
      then bindP (transcribeWithDoubaoBigasrFlash toNumber videoUrl
                    \<lparr> appKey = appId, accessKey = token \<rparr>)
             (\<lambda>txt. Return (txt, None))
      else OnStage downloading msgDownloading
             (bindP paraformer (\<lambda>(txt, publicUrl). Return (txt, Some publicUrl))))"

text \<open>The \<^verbatim>\<open>update\<close> closure of the job.\<close>

definition update :: "int \<Rightarrow> CaptionTaskStage \<Rightarrow> jsstring \<Rightarrow> CaptionTask \<Rightarrow> CaptionTask" where
  "update now stg msg task =
     task\<lparr> status := RUNNING, stage := stg, message := Some msg, updatedAt := now \<rparr>"

text \<open>
  \<open>run p now task\<close> executes the job up to its next \<^verbatim>\<open>await\<close> (or to its end) on the
  task object: each \<^verbatim>\<open>onStage\<close> call goes to \<open>update\<close>, each read of the signal sees
  the task's abort controller.
\<close>

primrec run :: "'a proc \<Rightarrow> int \<Rightarrow> CaptionTask \<Rightarrow> 'a proc \<times> CaptionTask" where
  "run (Return a) now task = (Return a, task)"
| "run (Throw e) now task = (Throw e, task)"
| "run (OnStage s m p) now task = run p now (update now s m task)"
| "run (SignalAborted k) now task = run (k (aborted task)) now task"
| "run (AwaitFetch l k) now task = (AwaitFetch l k, task)"
| "run (AwaitBuffer l k) now task = (AwaitBuffer l k, task)"
| "run (AwaitDone l k) now task = (AwaitDone l k, task)"
| "run (AwaitExit l k) now task = (AwaitExit l k, task)"
| "run (AwaitText l k) now task = (AwaitText l k, task)"

definition msgDone :: jsstring where
  \<comment> \<open>"extraction finished"\<close>
  "msgDone = [25552, 21462, 23436, 25104]"

definition msgFailed :: jsstring where
  \<comment> \<open>"extraction failed"\<close>
  "msgFailed = [25552, 21462, 22833, 36133]"

text \<open>
  The end of the job: the assignments after the adapter has returned, and the
  \<^verbatim>\<open>catch\<close> block. A job that is still awaiting changes nothing.
\<close>

fun settle :: "int \<Rightarrow> job \<Rightarrow> CaptionTask \<Rightarrow> CaptionTask" where
  "settle now (Return (txt, publicUrl)) task =
     task\<lparr> status := SUCCESS, stage := done_stage, message := Some msgDone,
           transcript := Some txt, publicFileUrl := publicUrl, updatedAt := now \<rparr>"
| "settle now (Throw err) task =
     (let ab = (aborted task \<or> exn_name err = str ''AbortError''
                \<or> exn_message err = msgCancelledError)
      in task\<lparr> status := (if ab then CANCELLED else FAILURE),
               stage := (if ab then cancelled else failed),
               error := Some (if ab then msgCancelledError else exn_message err),
               message := Some (if ab then msgCancelled else msgFailed),
               updatedAt := now \<rparr>)"
| "settle now p task = task"

fun pending :: "'a proc \<Rightarrow> bool" where
  "pending (Return a) = False"
| "pending (Throw e) = False"
| "pending p = True"

text \<open>
  The state of the server: the registry and the continuation of every job that is
  waiting for an operation to settle, under its task's id (\<^verbatim>\<open>randomUUID\<close> is taken
  not to repeat an id while its job is alive).
\<close>

record Server =
  captionTasks :: registry
  jobs :: "jsstring \<rightharpoonup> job"

datatype event =
    FetchSettled "exn + Response"
  | BufferSettled "exn + nat"
  | DoneSettled "exn + unit"
  | ExitSettled "exn + int option \<times> jsstring"
  | TextSettled "jsstring \<times> FlashBody option"
  | NextTurn

fun resume :: "event \<Rightarrow> 'a proc \<Rightarrow> 'a proc option" where
  "resume (FetchSettled r) (AwaitFetch l k) = Some (k r)"
| "resume (BufferSettled r) (AwaitBuffer l k) = Some (k r)"
| "resume (DoneSettled r) (AwaitDone l k) = Some (k r)"
| "resume (ExitSettled r) (AwaitExit l k) = Some (k r)"
| "resume (TextSettled r) (AwaitText l k) = Some (k r)"
| "resume ev p = None"

text \<open>
  The operation awaited by the job of task \<open>tid\<close> settles at time \<open>now\<close>: the job
  runs on to its next \<^verbatim>\<open>await\<close> or to its end, and at its end the assignments after
  the adapter call or those of the \<^verbatim>\<open>catch\<close> block follow in the same turn of the event
  loop. An event that does not match the awaited operation is ignored; a job whose task
  has been swept runs on an object that nothing can reach any more and is dropped.

  An adapter that ends in the synchronous stretch run by the create handler (it throws
  before its first \<^verbatim>\<open>await\<close>) leaves a job that is not awaiting any operation: the job's
  own \<^verbatim>\<open>await\<close> of the adapter's promise resumes in the next microtask, after the
  handler has replied. That is the event \<open>NextTurn\<close>.
\<close>

definition deliver :: "int \<Rightarrow> jsstring \<Rightarrow> event \<Rightarrow> Server \<Rightarrow> Server" where
  "deliver now tid ev sv =
     (case jobs sv tid of
        None \<Rightarrow> sv
      | Some p \<Rightarrow>
          if \<not> pending p
          then
            (case ev of
               NextTurn \<Rightarrow>
                 (case captionTasks sv tid of
                    None \<Rightarrow> sv\<lparr> jobs := (jobs sv)(tid := None) \<rparr>
                  | Some task \<Rightarrow>
                      sv\<lparr> captionTasks := (captionTasks sv)(tid \<mapsto> settle now p task),
                          jobs := (jobs sv)(tid := None) \<rparr>)
             | _ \<Rightarrow> sv)
          else
            (case resume ev p of
               None \<Rightarrow> sv
             | Some p' \<Rightarrow>
                 (case captionTasks sv tid of
                    None \<Rightarrow> sv\<lparr> jobs := (jobs sv)(tid := None) \<rparr>
                  | Some task \<Rightarrow>
                      (let (p'', task') = run p' now task;
                           task'' = settle now p'' task'
                       in sv\<lparr> captionTasks := (captionTasks sv)(tid \<mapsto> task''),
                              jobs := (if pending p'' then (jobs sv)(tid \<mapsto> p'')
                                       else (jobs sv)(tid := None)) \<rparr>))))"

text \<open>
  An adapter on its own: it is called at time \<open>now\<close> on the task (\<open>run\<close>), and then
  the operations it awaits settle one after the other, each at its time, with nothing
  else touching the task in between. The run stops at the first event that does not
  match the awaited operation.
\<close>

fun drive :: "(int \<times> event) list \<Rightarrow> 'a proc \<times> CaptionTask \<Rightarrow> 'a proc \<times> CaptionTask" where
  "drive [] pt = pt"
| "drive ((now, ev) # evs) (p, task) =
     (case resume ev p of
        None \<Rightarrow> (p, task)
      | Some p' \<Rightarrow> drive evs (run p' now task))"

text \<open>
  The operations the Flash adapter awaits, in program order, each settling without error
  up to the recognition request: the download answers \<open>videoRes\<close>, its body has
  \<open>videoBytes\<close> bytes, the ffmpeg path, the temporary directory and the input file are
  there, ffmpeg exits with code 0 and stderr \<open>err\<close>, the MP3 has \<open>mp3Bytes\<close> bytes, the
  removal of the directory settles with \<open>rm\<close>, the recognizer answers \<open>apiRes\<close> and its
  body reads as \<open>apiText\<close>, which parses to \<open>parsed\<close>. \<open>t i\<close> is the time of the
  \<open>i\<close>-th settlement.
\<close>

definition recognizerAnswers ::
  "(nat \<Rightarrow> int) \<Rightarrow> Response \<Rightarrow> nat \<Rightarrow> jsstring \<Rightarrow> nat \<Rightarrow> exn + unit \<Rightarrow> Response \<Rightarrow> jsstring
     \<Rightarrow> FlashBody option \<Rightarrow> (int \<times> event) list" where
  "recognizerAnswers t videoRes videoBytes err mp3Bytes rm apiRes apiText parsed =
     [(t 1, FetchSettled (Inr videoRes)),
      (t 2, BufferSettled (Inr videoBytes)),
      (t 3, DoneSettled (Inr ())),
      (t 4, DoneSettled (Inr ())),
      (t 5, DoneSettled (Inr ())),
      (t 6, ExitSettled (Inr (Some 0, err))),
      (t 7, BufferSettled (Inr mp3Bytes)),
      (t 8, DoneSettled rm),
      (t 9, FetchSettled (Inr apiRes)),
      (t 10, TextSettled (apiText, parsed))]"

text \<open>
  What the Flash adapter has come to, called at time \<open>now\<close> on the task, once the
  operations it awaits have settled as \<open>answers\<close> says: \<open>Return\<close> the transcript it
  returns, \<open>Throw\<close> the error it throws, or the \<^verbatim>\<open>await\<close> it is still at.
\<close>

definition flashOutcome ::
  "(jsstring \<Rightarrow> jsnum) \<Rightarrow> URL option \<Rightarrow> DoubaoBigasrFlashConfig \<Rightarrow> int \<Rightarrow> CaptionTask
     \<Rightarrow> (int \<times> event) list \<Rightarrow> jsstring proc" where
  "flashOutcome toNumber videoUrl cfg now task answers =
     fst (drive answers (run (transcribeWithDoubaoBigasrFlash toNumber videoUrl cfg) now task))"

section \<open>Task creation\<close>

record VideoMeta =
  caption :: "jsstring option"
  playUrl :: "jsstring option"

text \<open>
  The JSON body of a create request after the \<^verbatim>\<open>String(a || b || '')\<close> of lines
  1380-1384, before trimming: each field is the first truthy alternative or empty.
\<close>

record CreateBody =
  workUrl :: jsstring
  provider :: jsstring
  doubaoAppId :: jsstring
  doubaoToken :: jsstring
  dashscopeApiKey :: jsstring

record CreateRequest = Request +
  body :: "CreateBody option"

text \<open>
  \<open>body\<close> is \<open>None\<close> when \<^verbatim>\<open>readJsonBody\<close> throws. What the handler obtains from
  the platform and the network while it runs:
  \<^item> \<open>uuid\<close>: \<^verbatim>\<open>randomUUID()\<close>;
  \<^item> \<open>normalizedUrl\<close>: \<^verbatim>\<open>new URL(normalized)\<close>, the link found in \<^verbatim>\<open>workUrl\<close>;
  \<^item> \<open>videoId\<close>: \<^verbatim>\<open>parseVideoId(resolved)\<close> after the redirects;
  \<^item> \<open>videoMeta\<close>: what \<^verbatim>\<open>fetchVideoMeta(id)\<close> returns or throws;
  \<^item> \<open>playUrlParsed\<close>: \<^verbatim>\<open>new URL(meta.playUrl)\<close>.
\<close>

record Upstream =
  uuid :: jsstring
  normalizedUrl :: "URL option"
  videoId :: "jsstring option"
  videoMeta :: "exn + VideoMeta"
  playUrlParsed :: "URL option"

definition msgBadJson :: jsstring where
  \<comment> \<open>"the request body is not valid JSON"\<close>
  "msgBadJson = [35831, 27714, 20307, 19981, 26159, 26377, 25928, 30340, 32, 74, 83, 79, 78]"

definition msgMissingWorkUrl :: jsstring where
  \<comment> \<open>"workUrl is missing"\<close>
  "msgMissingWorkUrl = [32570, 23569, 32, 119, 111, 114, 107, 85, 114, 108]"

definition msgMissingDoubaoAppId :: jsstring where
  \<comment> \<open>"doubaoAppId (Doubao speech AppID) is missing"\<close>
  "msgMissingDoubaoAppId = [32570, 23569, 32, 100, 111, 117, 98, 97, 111, 65, 112, 112, 73, 100,
     65288, 35910, 21253, 35821, 38899, 32, 65, 112, 112, 73, 68, 65289]"

definition msgMissingDoubaoToken :: jsstring where
  \<comment> \<open>"doubaoToken (Doubao speech Access Token) is missing"\<close>
  "msgMissingDoubaoToken = [32570, 23569, 32, 100, 111, 117, 98, 97, 111, 84, 111, 107, 101, 110,
     65288, 35910, 21253, 35821, 38899, 32, 65, 99, 99, 101, 115, 115, 32, 84, 111, 107, 101, 110,
     65289]"

definition msgMissingDashscopeKey :: jsstring where
  \<comment> \<open>"dashscopeApiKey (Alibaba Bailian) is missing"\<close>
  "msgMissingDashscopeKey = [32570, 23569, 32, 100, 97, 115, 104, 115, 99, 111, 112, 101, 65, 112,
     105, 75, 101, 121, 65288, 38463, 37324, 30334, 28860, 65289]"

definition msgNoVideoId :: jsstring where
  \<comment> \<open>"the video ID cannot be recognised"\<close>
  "msgNoVideoId = [26080, 27861, 35782, 21035, 35270, 39057, 32, 73, 68]"

definition msgCaptionFound :: jsstring where
  \<comment> \<open>"got the Douyin caption"\<close>
  "msgCaptionFound = [24050, 33719, 21462, 25238, 38899, 23383, 24149]"

definition msgNoPlayUrl :: jsstring where
  \<comment> \<open>"cannot get the video's play address; access may be restricted or the video unavailable"\<close>
  "msgNoPlayUrl = [26080, 27861, 33719, 21462, 35270, 39057, 25773, 25918, 22320, 22336, 65292,
     21487, 33021, 26435, 38480, 21463, 38480, 25110, 35270, 39057, 19981, 21487, 29992]"

definition msgCreated :: jsstring where
  \<comment> \<open>"task created"\<close>
  "msgCreated = [20219, 21153, 24050, 21019, 24314]"

text \<open>Lines 1387-1392: the provider named by the request, or the one whose keys it carries.\<close>

definition chooseProvider :: "jsstring \<Rightarrow> jsstring \<Rightarrow> jsstring \<Rightarrow> jsstring" where
  "chooseProvider providerRaw appId token =
     (if providerRaw = str ''doubao'' \<or> providerRaw = str ''dashscope'' then providerRaw
      else if appId \<noteq> [] \<or> token \<noteq> [] then str ''doubao''
      else str ''dashscope'')"

text \<open>
  Lines 1416-1498, what the create handler does once \<^verbatim>\<open>fetchVideoMeta\<close> has returned
  \<open>meta\<close>; no \<^verbatim>\<open>await\<close> occurs in them, so they run without interruption on the server
  state as it is then. \<open>now'\<close> is the clock read while the task is built and while the
  job runs its first synchronous stretch; \<open>prov\<close>, \<open>appId\<close> and \<open>token\<close> are the
  provider and the keys taken from the request. The job is started and runs up to its
  first \<^verbatim>\<open>await\<close>, which is the adapter's first \<^verbatim>\<open>await\<close> or, when the adapter has
  thrown already, the job's \<^verbatim>\<open>await\<close> of the adapter's promise: the \<^verbatim>\<open>catch\<close> block
  never runs before the reply is sent.
\<close>

definition createTask ::
  "(jsstring \<Rightarrow> jsnum) \<Rightarrow> (jsstring \<times> jsstring) proc \<Rightarrow> int \<Rightarrow> jsstring \<Rightarrow> jsstring
     \<Rightarrow> jsstring \<Rightarrow> Upstream \<Rightarrow> VideoMeta \<Rightarrow> Server \<Rightarrow> reply \<times> Server" where
  "createTask toNumber paraformer now' prov appId token env meta sv =
     (if orEmpty (caption meta) \<noteq> [] \<and> trim (orEmpty (caption meta)) \<noteq> []
      then
        let task = \<lparr> taskId = uuid env, status = SUCCESS, stage = done_stage,
              message = Some msgCaptionFound,
              transcript = Some (trim (orEmpty (caption meta))),
              error = None, publicFileUrl = None, createdAt = now', updatedAt = now',
              aborted = False \<rparr>
        in (JsonSnapshot (snapshotCaptionTask task),
            sv\<lparr> captionTasks := (captionTasks sv)(uuid env \<mapsto> task) \<rparr>)
      else if orEmpty (playUrl meta) = [] then (JsonError 500 msgNoPlayUrl, sv)
      else
        let task0 = \<lparr> taskId = uuid env, status = WAITING, stage = queued,
              message = Some msgCreated, transcript = None, error = None,
              publicFileUrl = None, createdAt = now', updatedAt = now', aborted = False \<rparr>;
            (p, task) =
              run (captionJob toNumber paraformer prov (playUrlParsed env) appId token)
                now' task0
        in (JsonSnapshot (snapshotCaptionTask task),
            sv\<lparr> captionTasks := (captionTasks sv)(uuid env \<mapsto> task),
                jobs := (jobs sv)(uuid env \<mapsto> p) \<rparr>))"

text \<open>
  The whole handler, when no other handler and no job runs while it awaits the body,
  the redirects and the metadata; \<open>now\<close> is the clock of the sweep.
\<close>

definition handleCaptionCreate ::
  "(jsstring \<Rightarrow> jsnum) \<Rightarrow> (jsstring \<times> jsstring) proc \<Rightarrow> int \<Rightarrow> int \<Rightarrow> CreateRequest
     \<Rightarrow> Upstream \<Rightarrow> Server \<Rightarrow> reply \<times> Server" where
  "handleCaptionCreate toNumber paraformer now now' req env sv0 =
     (let sv = sv0\<lparr> captionTasks := cleanupCaptionTasks now (captionTasks sv0) \<rparr>
      in if \<not> isPost req then (JsonError 405 msgPostOnly, sv)
         else case body req of
           None \<Rightarrow> (JsonError 500 msgBadJson, sv)
         | Some b \<Rightarrow>
             (let workUrlRaw = trim (workUrl b);
                  providerRaw = toLowerCase (trim (provider b));
                  appId = trim (doubaoAppId b);
                  token = trim (doubaoToken b);
                  apiKey = trim (dashscopeApiKey b)
              in if workUrlRaw = [] then (JsonError 400 msgMissingWorkUrl, sv)
                 else
                   let prov = chooseProvider providerRaw appId token
                   in if prov = str ''doubao'' \<and> appId = []
                      then (JsonError 400 msgMissingDoubaoAppId, sv)
                      else if prov = str ''doubao'' \<and> token = []
                      then (JsonError 400 msgMissingDoubaoToken, sv)
                      else if prov \<noteq> str ''doubao'' \<and> apiKey = []
                      then (JsonError 400 msgMissingDashscopeKey, sv)
                      else
                        (case assertSafeDouyinUrl (normalizedUrl env) of
                           Inl e \<Rightarrow> (JsonError 500 (exn_message e), sv)
                         | Inr parsed \<Rightarrow>
                             if orEmpty (videoId env) = [] then (JsonError 400 msgNoVideoId, sv)
                             else
                               (case videoMeta env of
                                  Inl e \<Rightarrow> (JsonError 500 (exn_message e), sv)
                                | Inr meta \<Rightarrow>
                                    createTask toNumber paraformer now' prov appId token env
                                      meta sv))))"

text \<open>
  The checks of \<^verbatim>\<open>handleCaptionCreate\<close> that come before the metadata is fetched
  (lines 1374-1412) all pass: the method is POST, the body is valid JSON with a link, the
  keys of the chosen provider are there, the link is a Douyin link and a video id was
  found in it.
\<close>

definition reachesMetadata :: "CreateRequest \<Rightarrow> Upstream \<Rightarrow> bool" where
  "reachesMetadata req env =
     (isPost req \<and>
      (case body req of
         None \<Rightarrow> False
       | Some b \<Rightarrow>
           trim (workUrl b) \<noteq> []
           \<and> (if chooseProvider (toLowerCase (trim (provider b))) (trim (doubaoAppId b))
                   (trim (doubaoToken b)) = str ''doubao''
              then trim (doubaoAppId b) \<noteq> [] \<and> trim (doubaoToken b) \<noteq> []
              else trim (dashscopeApiKey b) \<noteq> [])
           \<and> (case assertSafeDouyinUrl (normalizedUrl env) of Inl e \<Rightarrow> False | Inr u \<Rightarrow> True)
           \<and> orEmpty (videoId env) \<noteq> []))"

section \<open>The Douyin web session\<close>

record DouyinWebSession =
  cookie :: jsstring
  expiresAt :: int

text \<open>
  What the network and the platform give during one run of
  \<^verbatim>\<open>refreshDouyinWebSession\<close>:
  \<^item> \<open>nonce\<close>: the first request is rejected, or
    \<^verbatim>\<open>pickCookieValue(sc1, '__ac_nonce')\<close> of its response;
  \<^item> \<open>acSignature\<close>: what \<^verbatim>\<open>computeDouyinAcSignature\<close> returns or throws (reading
    the page body included);
  \<^item> \<open>jar2\<close>: the second request is rejected, or the entries of
    \<^verbatim>\<open>parseSetCookiePairs(sc2)\<close> in insertion order;
  \<^item> \<open>clock\<close>: \<^verbatim>\<open>Date.now()\<close> when the session object is built.
\<close>

record Handshake =
  nonce :: "exn + jsstring option"
  acSignature :: "exn + jsstring"
  jar2 :: "exn + (jsstring \<times> jsstring) list"
  clock :: int

definition msgNoNonce :: jsstring where
  \<comment> \<open>"failed to get __ac_nonce"\<close>
  "msgNoNonce = [33719, 21462, 32, 95, 95, 97, 99, 95, 110, 111, 110, 99, 101, 32, 22833, 36133]"

definition refreshDouyinWebSession :: "Handshake \<Rightarrow> exn + DouyinWebSession" where
  "refreshDouyinWebSession h =
     (case nonce h of
        Inl e \<Rightarrow> Inl e
      | Inr n0 \<Rightarrow>
          if orEmpty n0 = [] then Inl (newError msgNoNonce)
          else
            (case acSignature h of
               Inl e \<Rightarrow> Inl e
             | Inr sig \<Rightarrow>
                 (let baseCookie = str ''__ac_nonce='' @ orEmpty n0 @ str ''; __ac_signature=''
                                   @ sig @ str ''; __ac_referer=__ac_blank''
                  in case jar2 h of
                       Inl e \<Rightarrow> Inl e
                     | Inr jar \<Rightarrow>
                         (let cookieParts =
                                baseCookie # map (\<lambda>(k, v). k @ str ''='' @ v) jar;
                              ttlMs = 29 * 60 * 1000
                          in Inr \<lparr> cookie = joinWith (str ''; '') cookieParts,
                                   expiresAt = clock h + ttlMs \<rparr>))))"

text \<open>
  The two module variables. The lock is a promise; its identity is the number of the
  refresh it belongs to. \<open>handshakes\<close> is not in the source: it counts the calls of
  \<^verbatim>\<open>refreshDouyinWebSession\<close> that have been started.
\<close>

record SessionState =
  douyinWebSession :: "DouyinWebSession option"
  douyinWebSessionLock :: "nat option"
  handshakes :: nat

definition sessionValid :: "int \<Rightarrow> SessionState \<Rightarrow> bool" where
  "sessionValid now st =
     (case douyinWebSession st of None \<Rightarrow> False | Some s \<Rightarrow> now < expiresAt s - 60000)"

text \<open>
  JavaScript is single-threaded: a call of \<^verbatim>\<open>getDouyinWebSession\<close> runs without
  interruption up to its first \<^verbatim>\<open>await\<close>. That stretch ends in one of three ways: the
  cached session is returned, the promise of the refresh in flight is returned, or a
  refresh is started (the first request of the handshake is sent) and awaited.
\<close>

datatype outcome = Cached DouyinWebSession | Joined nat | Started nat

definition callGetSession :: "int \<Rightarrow> SessionState \<Rightarrow> outcome \<times> SessionState" where
  "callGetSession now st =
     (case douyinWebSession st of
        Some s \<Rightarrow>
          if now < expiresAt s - 60000 then (Cached s, st)
          else (case douyinWebSessionLock st of
                  Some l \<Rightarrow> (Joined l, st)
                | None \<Rightarrow> (Started (handshakes st),
                           st\<lparr> douyinWebSessionLock := Some (handshakes st),
                               handshakes := handshakes st + 1 \<rparr>))
      | None \<Rightarrow>
          (case douyinWebSessionLock st of
             Some l \<Rightarrow> (Joined l, st)
           | None \<Rightarrow> (Started (handshakes st),
                      st\<lparr> douyinWebSessionLock := Some (handshakes st),
                          handshakes := handshakes st + 1 \<rparr>)))"

text \<open>
  The refresh in flight settles: on success the wrapper stores the session; then the
  \<^verbatim>\<open>finally\<close> of the caller that started it clears the lock.
\<close>

definition refreshSettled :: "exn + DouyinWebSession \<Rightarrow> SessionState \<Rightarrow> SessionState" where
  "refreshSettled r st =
     (case r of Inl e \<Rightarrow> st | Inr session \<Rightarrow> st\<lparr> douyinWebSession := Some session \<rparr>)"

definition lockReleased :: "SessionState \<Rightarrow> SessionState" where
  "lockReleased st = st\<lparr> douyinWebSessionLock := None \<rparr>"

text \<open>Several calls in a row, with no refresh settling in between, at the given times.\<close>

fun callsGetSession :: "int list \<Rightarrow> SessionState \<Rightarrow> outcome list \<times> SessionState" where
  "callsGetSession [] st = ([], st)"
| "callsGetSession (now # nows) st =
     (let (r, st') = callGetSession now st;
          (rs, st'') = callsGetSession nows st'
      in (r # rs, st''))"

text \<open>
  One call run to completion with no other caller in between: \<open>h\<close> is the handshake of
  the refresh the call starts or joins.
\<close>

definition getDouyinWebSession ::
  "int \<Rightarrow> Handshake \<Rightarrow> SessionState \<Rightarrow> (exn + DouyinWebSession) \<times> SessionState" where
  "getDouyinWebSession now h st =
     (case callGetSession now st of
        (Cached s, st') \<Rightarrow> (Inr s, st')
      | (_, st') \<Rightarrow>
          (let r = refreshDouyinWebSession h
           in (r, lockReleased (refreshSettled r st'))))"

section \<open>The account's video list\<close>






















section \<open>Example data\<close>

text \<open>Concrete tasks and requests on which the theorems below are instantiated.\<close>

definition exampleTask :: "jsstring \<Rightarrow> CaptionTaskStatus \<Rightarrow> CaptionTaskStage \<Rightarrow> int \<Rightarrow> CaptionTask" where
  "exampleTask k st sg t =
     \<lparr> taskId = k, status = st, stage = sg, message = None, transcript = None, error = None,
       publicFileUrl = None, createdAt = 0, updatedAt = t, aborted = False \<rparr>"

definition exampleRegistry :: registry where
  "exampleRegistry =
     [str ''a'' \<mapsto> exampleTask (str ''a'') SUCCESS done_stage 0,
      str ''b'' \<mapsto> exampleTask (str ''b'') RUNNING polling 0]"

definition exampleTaskRequest :: "string \<Rightarrow> TaskRequest" where
  "exampleTaskRequest k =
     \<lparr> httpMethod = Some (str ''POST''), queryTaskId = Some (str k), bodyTaskId = None \<rparr>"

text \<open>
  A conversion that agrees with \<^verbatim>\<open>Number\<close> on the strings of the examples: strings
  of decimal digits (of value below \<open>2^53\<close>), the empty string, and \<^verbatim>\<open>ERR\<close>, which is
  not a numeral and converts to NaN. It stands for \<open>toNumber\<close> in the examples.
\<close>

fun digitsValue :: "jsstring \<Rightarrow> nat \<Rightarrow> nat option" where
  "digitsValue [] acc = Some acc"
| "digitsValue (c # cs) acc =
     (if 48 \<le> c \<and> c \<le> 57 then digitsValue cs (acc * 10 + (c - 48)) else None)"

definition decimalToNumber :: "jsstring \<Rightarrow> jsnum" where
  "decimalToNumber s =
     (if trim s = [] then Fin 0
      else case digitsValue (trim s) 0 of None \<Rightarrow> NaN | Some n \<Rightarrow> Fin (of_nat n))"

definition exampleCreateRequest :: CreateRequest where
  "exampleCreateRequest =
     \<lparr> httpMethod = Some (str ''POST''),
       body = Some \<lparr> workUrl = str ''https://v.douyin.com/abc123/'', provider = str ''doubao'',
                     doubaoAppId = str ''app'', doubaoToken = str ''token'',
                     dashscopeApiKey = [] \<rparr> \<rparr>"

definition exampleUpstream :: "VideoMeta \<Rightarrow> Upstream" where
  "exampleUpstream meta =
     \<lparr> uuid = str ''t1'',
       normalizedUrl = Some \<lparr> protocol = str ''https:'', hostname = str ''v.douyin.com'',
                              href = str ''https://v.douyin.com/abc123/'' \<rparr>,
       videoId = Some (str ''7300000000000000000''),
       videoMeta = Inr meta,
       playUrlParsed = Some \<lparr> protocol = str ''https:'', hostname = str ''v3-web.douyinvod.com'',
                              href = str ''https://v3-web.douyinvod.com/video.mp4'' \<rparr> \<rparr>"

definition localPlayUpstream :: Upstream where
  \<comment> \<open>the metadata has no caption and a play address on the local machine\<close>
  "localPlayUpstream =
     (exampleUpstream \<lparr> caption = None, playUrl = Some (str ''http://localhost/video.mp4'') \<rparr>)
       \<lparr> playUrlParsed := Some \<lparr> protocol = str ''http:'', hostname = str ''localhost'',
                                  href = str ''http://localhost/video.mp4'' \<rparr> \<rparr>"

definition exampleServer :: Server where
  "exampleServer = \<lparr> captionTasks = Map.empty, jobs = Map.empty \<rparr>"

definition blankCaptionMeta :: VideoMeta where
  \<comment> \<open>a caption that is one space, and a play address\<close>
  "blankCaptionMeta =
     \<lparr> caption = Some [32], playUrl = Some (str ''https://v3-web.douyinvod.com/video.mp4'') \<rparr>"

definition noCaptionMeta :: VideoMeta where
  "noCaptionMeta =
     \<lparr> caption = None, playUrl = Some (str ''https://v3-web.douyinvod.com/video.mp4'') \<rparr>"

definition exampleParaformer :: "(jsstring \<times> jsstring) proc" where
  \<comment> \<open>stands for the Paraformer adapter where the provider is Doubao and it is never run\<close>
  "exampleParaformer = Throw (newError [])"

definition okResponse :: Response where
  "okResponse = \<lparr> ok = True, httpStatus = 200, xApiStatusCode = None, xApiMessage = None,
                   xTtLogid = None \<rparr>"

text \<open>
  A run of the server. A Doubao task is created at time 0 for a video without caption;
  the download, the buffer, the ffmpeg path, the temporary directory, the input file and
  ffmpeg (exit code 0) settle one after the other, so that the job is waiting for
  \<^verbatim>\<open>readFile(outputPath)\<close>.
\<close>

definition runToReadFile :: Server where
  "runToReadFile =
     deliver 6 (str ''t1'') (ExitSettled (Inr (Some 0, [])))
      (deliver 5 (str ''t1'') (DoneSettled (Inr ()))
        (deliver 4 (str ''t1'') (DoneSettled (Inr ()))
          (deliver 3 (str ''t1'') (DoneSettled (Inr ()))
            (deliver 2 (str ''t1'') (BufferSettled (Inr 1000))
              (deliver 1 (str ''t1'') (FetchSettled (Inr okResponse))
                (snd (handleCaptionCreate decimalToNumber exampleParaformer 0 0
                        exampleCreateRequest (exampleUpstream noCaptionMeta)
                        exampleServer)))))))"

text \<open>Now the client cancels the task, at time 7.\<close>

definition runCancelled :: Server where
  "runCancelled =
     runToReadFile\<lparr> captionTasks :=
       snd (handleCaptionCancel 7 7 (exampleTaskRequest ''t1'') (captionTasks runToReadFile)) \<rparr>"

text \<open>
  \<^verbatim>\<open>readFile\<close> and the removal of the temporary directory take no abort signal and
  settle as usual, at times 8 and 9; the adapter goes on to \<^verbatim>\<open>onStage('submitting')\<close>
  and to the recognition request.
\<close>

definition runAfterCleanup :: Server where
  "runAfterCleanup =
     deliver 9 (str ''t1'') (DoneSettled (Inr ()))
       (deliver 8 (str ''t1'') (BufferSettled (Inr 500)) runCancelled)"

text \<open>The request was sent with an aborted signal and is rejected with an AbortError.\<close>

definition runAfterAbort :: Server where
  "runAfterAbort =
     deliver 9 (str ''t1'')
       (FetchSettled (Inl (Exn (str ''AbortError'') (str ''This operation was aborted''))))
       runAfterCleanup"

text \<open>
  A run of the Flash adapter alone, on a fresh task at time 0: the video is downloaded
  (1000 bytes) and converted (an MP3 of 500 bytes), and the recognizer answers \<open>apiRes\<close>
  with the body \<open>apiText\<close>.
\<close>

definition exampleConfig :: DoubaoBigasrFlashConfig where
  "exampleConfig = \<lparr> appKey = str ''app'', accessKey = str ''token'' \<rparr>"

definition exampleVideoUrl :: "URL option" where
  "exampleVideoUrl =
     Some \<lparr> protocol = str ''https:'', hostname = str ''v3-web.douyinvod.com'',
            href = str ''https://v3-web.douyinvod.com/video.mp4'' \<rparr>"

definition exampleAnswers :: "Response \<Rightarrow> jsstring \<Rightarrow> FlashBody option \<Rightarrow> (int \<times> event) list" where
  "exampleAnswers apiRes apiText parsed =
     recognizerAnswers int okResponse 1000 [] 500 (Inr ()) apiRes apiText parsed"

definition exampleFlashOutcome :: "Response \<Rightarrow> jsstring \<Rightarrow> FlashBody option \<Rightarrow> jsstring proc" where
  "exampleFlashOutcome apiRes apiText parsed =
     flashOutcome decimalToNumber exampleVideoUrl exampleConfig 0
       (exampleTask (str ''t1'') WAITING queued 0) (exampleAnswers apiRes apiText parsed)"

definition flashBodyText :: "jsstring \<Rightarrow> jsstring" where
  \<comment> \<open>the JSON text \<^verbatim>\<open>{"result":{"text":"..."}}\<close> (34 is the double quote)\<close>
  "flashBodyText t =
     str ''{'' @ [34] @ str ''result'' @ [34] @ str '':{'' @ [34] @ str ''text'' @ [34]
     @ str '':'' @ [34] @ t @ [34] @ str ''}}''"

definition flashBody :: "jsstring \<Rightarrow> FlashBody option" where
  \<comment> \<open>what \<^verbatim>\<open>JSON.parse\<close> makes of that text\<close>
  "flashBody t = Some \<lparr> resultText = Some t, bodyMessage = None, bodyError = None \<rparr>"

definition captionMeta :: VideoMeta where
  \<comment> \<open>a caption " hi " and no play address\<close>
  "captionMeta = \<lparr> caption = Some (str '' hi ''), playUrl = None \<rparr>"

definition exampleHandshake :: "int \<Rightarrow> Handshake" where
  "exampleHandshake t =
     \<lparr> nonce = Inr (Some (str ''n0'')), acSignature = Inr (str ''sig''),
       jar2 = Inr [(str ''ttwid'', str ''1'')], clock = t \<rparr>"

definition coldSession :: SessionState where
  "coldSession =
     \<lparr> douyinWebSession = None, douyinWebSessionLock = None, handshakes = 0 \<rparr>"

definition warmSession :: SessionState where
  "warmSession =
     \<lparr> douyinWebSession = Some \<lparr> cookie = str ''ttwid=1'', expiresAt = 1740000 \<rparr>,
       douyinWebSessionLock = None, handshakes = 1 \<rparr>"




section \<open>Basic facts\<close>

lemma str_eq_iff [simp]: "str a = str b \<longleftrightarrow> a = b"
  unfolding str_def by (simp add: inj_on_def)

lemma str_eq_Nil [simp]: "str a = [] \<longleftrightarrow> a = []"
  by (simp add: str_def)

lemma toUpperCase_POST [simp]: "toUpperCase (str ''POST'') = str ''POST''"
  by (simp add: toUpperCase_def str_def)

lemma finished_cases:
  "finished s \<longleftrightarrow> s \<noteq> WAITING \<and> s \<noteq> RUNNING"
  by (cases s) (simp_all add: finished_def)

declare showNat.simps [simp del]

section \<open>The sweep\<close>

lemma cleanup_Some_iff:
  "cleanupCaptionTasks now tasks k = Some t \<longleftrightarrow>
     tasks k = Some t \<and> \<not> (finished (status t) \<and> now - updatedAt t > 3600000)"
  by (auto simp: cleanupCaptionTasks_def CAPTION_TASK_TTL_MS_def Let_def split: option.splits)

lemma cleanup_None_iff:
  "cleanupCaptionTasks now tasks k = None \<longleftrightarrow>
     (tasks k = None
      \<or> (\<exists>t. tasks k = Some t \<and> finished (status t) \<and> now - updatedAt t > 3600000))"
  by (auto simp: cleanupCaptionTasks_def CAPTION_TASK_TTL_MS_def Let_def split: option.splits)

lemma cleanup_upd_same:
  "cleanupCaptionTasks now (tasks(k \<mapsto> t)) k = Some t' \<Longrightarrow> t' = t"
  by (simp add: cleanup_Some_iff)

text \<open>
  Claim C8. A sweep at time \<open>now\<close> removes exactly the tasks whose status is SUCCESS,
  FAILURE or CANCELLED and whose last update is more than one hour (3,600,000 ms) before
  \<open>now\<close>; every other task stays as it is, and a WAITING or RUNNING task is never removed,
  whatever its age. Each of the three handlers of the task API begins with the sweep:
  the registry after a query is the swept registry, after a cancel it has the keys of the
  swept registry, and after a create it has those keys and at most the new task's id.
\<close>

theorem sweep_removes_exactly_old_terminal_tasks:
  "dom (cleanupCaptionTasks now tasks) =
     dom tasks - {k. \<exists>t. tasks k = Some t
                       \<and> (status t = SUCCESS \<or> status t = FAILURE \<or> status t = CANCELLED)
                       \<and> now - updatedAt t > 60 * 60 * 1000}
   \<and> (\<forall>k \<in> dom (cleanupCaptionTasks now tasks). cleanupCaptionTasks now tasks k = tasks k)
   \<and> (\<forall>k t. tasks k = Some t \<and> (status t = WAITING \<or> status t = RUNNING)
          \<longrightarrow> cleanupCaptionTasks now tasks k = Some t)
   \<and> snd (handleCaptionQuery now qreq tasks) = cleanupCaptionTasks now tasks
   \<and> dom (snd (handleCaptionCancel now now' creq tasks)) = dom (cleanupCaptionTasks now tasks)
   \<and> dom (captionTasks (snd (handleCaptionCreate toNumber paraformer now now' req env sv)))
        \<subseteq> insert (uuid env) (dom (cleanupCaptionTasks now (captionTasks sv)))
   \<and> dom (cleanupCaptionTasks now (captionTasks sv))
        \<subseteq> dom (captionTasks (snd (handleCaptionCreate toNumber paraformer now now' req env sv)))"
proof (intro conjI)
  show "dom (cleanupCaptionTasks now tasks) =
     dom tasks - {k. \<exists>t. tasks k = Some t
                       \<and> (status t = SUCCESS \<or> status t = FAILURE \<or> status t = CANCELLED)
                       \<and> now - updatedAt t > 60 * 60 * 1000}"
    by (auto simp: dom_def cleanup_Some_iff cleanup_None_iff finished_def)
  show "\<forall>k \<in> dom (cleanupCaptionTasks now tasks). cleanupCaptionTasks now tasks k = tasks k"
    by (auto simp: cleanup_Some_iff)
  show "\<forall>k t. tasks k = Some t \<and> (status t = WAITING \<or> status t = RUNNING)
          \<longrightarrow> cleanupCaptionTasks now tasks k = Some t"
    by (auto simp: cleanup_Some_iff finished_def)
  show "snd (handleCaptionQuery now qreq tasks) = cleanupCaptionTasks now tasks"
    by (simp add: handleCaptionQuery_def Let_def split: option.splits)
  show "dom (snd (handleCaptionCancel now now' creq tasks)) = dom (cleanupCaptionTasks now tasks)"
    by (auto simp: handleCaptionCancel_def cancelTask_def Let_def split: option.splits if_splits)
  show "dom (captionTasks (snd (handleCaptionCreate toNumber paraformer now now' req env sv)))
        \<subseteq> insert (uuid env) (dom (cleanupCaptionTasks now (captionTasks sv)))"
    by (auto simp: handleCaptionCreate_def createTask_def Let_def
             split: option.splits if_splits sum.splits prod.splits)
  show "dom (cleanupCaptionTasks now (captionTasks sv))
        \<subseteq> dom (captionTasks (snd (handleCaptionCreate toNumber paraformer now now' req env sv)))"
    by (auto simp: handleCaptionCreate_def createTask_def Let_def
             split: option.splits if_splits sum.splits prod.splits)
qed

text \<open>
  Two tasks last updated at time 0, swept at 3,600,001 ms: the finished one goes, the
  running one stays, and a query for the finished one answers 404.
\<close>

theorem sweep_removes_exactly_old_terminal_tasks_witness:
  "dom (cleanupCaptionTasks 3600001 exampleRegistry) = {str ''b''}
   \<and> cleanupCaptionTasks 3600001 exampleRegistry (str ''b'')
       = Some (exampleTask (str ''b'') RUNNING polling 0)
   \<and> fst (handleCaptionQuery 3600001 (exampleTaskRequest ''a'') exampleRegistry)
       = JsonError 404 msgTaskNotFound"
proof -
  note sweep = sweep_removes_exactly_old_terminal_tasks
                 [of 3600001 exampleRegistry "exampleTaskRequest ''a''"]
  have a: "exampleRegistry (str ''a'') = Some (exampleTask (str ''a'') SUCCESS done_stage 0)"
    by (simp add: exampleRegistry_def)
  have b: "exampleRegistry (str ''b'') = Some (exampleTask (str ''b'') RUNNING polling 0)"
    by (simp add: exampleRegistry_def)
  have d: "dom exampleRegistry = {str ''a'', str ''b''}"
    by (auto simp: exampleRegistry_def)
  have gone: "{k. \<exists>t. exampleRegistry k = Some t
                  \<and> (status t = SUCCESS \<or> status t = FAILURE \<or> status t = CANCELLED)
                  \<and> 3600001 - updatedAt t > 60 * 60 * 1000} = {str ''a''}"
    by (auto simp: exampleRegistry_def exampleTask_def split: if_splits)
  from sweep have "dom (cleanupCaptionTasks 3600001 exampleRegistry) = {str ''b''}"
    unfolding gone d by auto
  moreover from sweep b
  have "cleanupCaptionTasks 3600001 exampleRegistry (str ''b'')
          = Some (exampleTask (str ''b'') RUNNING polling 0)"
    by (simp add: exampleTask_def)
  moreover from sweep
  have q: "snd (handleCaptionQuery 3600001 (exampleTaskRequest ''a'') exampleRegistry)
          = cleanupCaptionTasks 3600001 exampleRegistry"
    by blast
  have "fst (handleCaptionQuery 3600001 (exampleTaskRequest ''a'') exampleRegistry)
          = JsonError 404 msgTaskNotFound"
    using a by (simp add: handleCaptionQuery_def Let_def exampleTaskRequest_def orEmpty_def
                  cleanupCaptionTasks_def CAPTION_TASK_TTL_MS_def exampleTask_def finished_def)
  ultimately show ?thesis by simp
qed

section \<open>Cancelling a task\<close>

lemma cancel_live:
  assumes "k \<noteq> []" and "tasks k = Some task"
      and "status task = WAITING \<or> status task = RUNNING"
  shows "cancelTask now' k tasks =
           (JsonSnapshot (snapshotCaptionTask
              (task\<lparr> aborted := True, status := CANCELLED, stage := cancelled,
                     message := Some msgCancelled, error := Some msgCancelledError,
                     updatedAt := now' \<rparr>)),
            tasks(k \<mapsto>
               task\<lparr> aborted := True, status := CANCELLED, stage := cancelled,
                     message := Some msgCancelled, error := Some msgCancelledError,
                     updatedAt := now' \<rparr>))"
  using assms by (auto simp: cancelTask_def Let_def)

lemma cancel_terminal:
  assumes "k \<noteq> []" and "tasks k = Some task" and "finished (status task)"
  shows "cancelTask now' k tasks = (JsonSnapshot (snapshotCaptionTask task), tasks)"
  using assms by (auto simp: cancelTask_def Let_def finished_def)

lemma cancel_handler:
  "isPost req \<Longrightarrow>
   handleCaptionCancel now now' req tasks =
     cancelTask now' (cancelTaskId req) (cleanupCaptionTasks now tasks)"
  by (simp add: handleCaptionCancel_def)

lemma cancel_handler_live:
  assumes "isPost req" and "cancelTaskId req = k" and "k \<noteq> []" and "tasks k = Some task"
      and "status task = WAITING \<or> status task = RUNNING"
  shows "handleCaptionCancel now now' req tasks =
           (JsonSnapshot (snapshotCaptionTask
              (task\<lparr> aborted := True, status := CANCELLED, stage := cancelled,
                     message := Some msgCancelled, error := Some msgCancelledError,
                     updatedAt := now' \<rparr>)),
            (cleanupCaptionTasks now tasks)(k \<mapsto>
               task\<lparr> aborted := True, status := CANCELLED, stage := cancelled,
                     message := Some msgCancelled, error := Some msgCancelledError,
                     updatedAt := now' \<rparr>))"
proof -
  from assms(4,5) have "cleanupCaptionTasks now tasks k = Some task"
    by (auto simp: cleanup_Some_iff finished_def)
  from cancel_live [of k "cleanupCaptionTasks now tasks" task now', OF assms(3) this assms(5)]
    assms(1,2)
  show ?thesis
    by (simp add: cancel_handler)
qed

lemma cancel_handler_terminal:
  assumes "isPost req" and "cancelTaskId req = k" and "k \<noteq> []" and "tasks k = Some task"
      and "finished (status task)" and "now - updatedAt task \<le> 3600000"
  shows "handleCaptionCancel now now' req tasks =
           (JsonSnapshot (snapshotCaptionTask task), cleanupCaptionTasks now tasks)
         \<and> cleanupCaptionTasks now tasks k = Some task"
proof -
  from assms(4,6) have kept: "cleanupCaptionTasks now tasks k = Some task"
    by (simp add: cleanup_Some_iff)
  from cancel_terminal [of k "cleanupCaptionTasks now tasks" task now', OF assms(3) kept assms(5)]
    assms(1,2) kept
  show ?thesis
    by (simp add: cancel_handler)
qed

lemma cancel_handler_expired:
  assumes "isPost req" and "cancelTaskId req = k" and "k \<noteq> []" and "tasks k = Some task"
      and "finished (status task)" and "now - updatedAt task > 3600000"
  shows "handleCaptionCancel now now' req tasks =
           (JsonError 404 msgTaskNotFound, cleanupCaptionTasks now tasks)
         \<and> cleanupCaptionTasks now tasks k = None"
proof -
  from assms(4,5,6) have gone: "cleanupCaptionTasks now tasks k = None"
    by (simp add: cleanup_None_iff)
  with assms(1,2,3) show ?thesis
    by (simp add: cancel_handler cancelTask_def)
qed

text \<open>
  Claim C9. A POST request names task \<open>k\<close>, which the registry holds when the cancel
  handler is called. If the task is WAITING or RUNNING, the handler signals its abort
  controller, sets status CANCELLED and stage cancelled, stores the cancellation error
  string (the code units of the source's literal) and the new \<^verbatim>\<open>updatedAt\<close>, and
  answers with the snapshot of the task so changed. If the task is SUCCESS, FAILURE or
  CANCELLED and was last updated at most one hour before the call, the handler answers
  with the snapshot of the unchanged task and leaves it in the registry as it is,
  \<^verbatim>\<open>updatedAt\<close> included. If it was last updated more than one hour before the call,
  the sweep that opens the handler removes it and the answer is 404. Cancelling again
  answers what the first call answered and leaves the task as the first call left it,
  as long as the second call comes at most one hour after the task's last update.
\<close>

theorem cancel_sets_cancelled_and_is_idempotent:
  assumes "isPost req" and "cancelTaskId req = k" and "k \<noteq> []" and "tasks k = Some task"
  shows "(status task = WAITING \<or> status task = RUNNING \<longrightarrow>
            handleCaptionCancel now now' req tasks =
              (JsonSnapshot (snapshotCaptionTask
                 (task\<lparr> aborted := True, status := CANCELLED, stage := cancelled,
                        message := Some msgCancelled,
                        error := Some [24050, 21462, 28040, 35831, 27714, 12290],
                        updatedAt := now' \<rparr>)),
               (cleanupCaptionTasks now tasks)(k \<mapsto>
                  task\<lparr> aborted := True, status := CANCELLED, stage := cancelled,
                        message := Some msgCancelled,
                        error := Some [24050, 21462, 28040, 35831, 27714, 12290],
                        updatedAt := now' \<rparr>)))
       \<and> ((status task = SUCCESS \<or> status task = FAILURE \<or> status task = CANCELLED)
            \<and> now - updatedAt task \<le> 60 * 60 * 1000 \<longrightarrow>
            handleCaptionCancel now now' req tasks =
              (JsonSnapshot (snapshotCaptionTask task), cleanupCaptionTasks now tasks)
            \<and> snd (handleCaptionCancel now now' req tasks) k = Some task)
       \<and> ((status task = SUCCESS \<or> status task = FAILURE \<or> status task = CANCELLED)
            \<and> now - updatedAt task > 60 * 60 * 1000 \<longrightarrow>
            handleCaptionCancel now now' req tasks =
              (JsonError 404 msgTaskNotFound, cleanupCaptionTasks now tasks)
            \<and> snd (handleCaptionCancel now now' req tasks) k = None)
       \<and> (\<forall>task'. snd (handleCaptionCancel now now' req tasks) k = Some task'
              \<and> later - updatedAt task' \<le> 60 * 60 * 1000 \<longrightarrow>
            fst (handleCaptionCancel later later' req
                   (snd (handleCaptionCancel now now' req tasks)))
              = fst (handleCaptionCancel now now' req tasks)
            \<and> snd (handleCaptionCancel later later' req
                     (snd (handleCaptionCancel now now' req tasks))) k = Some task')"
proof (intro conjI impI allI)
  assume live: "status task = WAITING \<or> status task = RUNNING"
  show "handleCaptionCancel now now' req tasks =
              (JsonSnapshot (snapshotCaptionTask
                 (task\<lparr> aborted := True, status := CANCELLED, stage := cancelled,
                        message := Some msgCancelled,
                        error := Some [24050, 21462, 28040, 35831, 27714, 12290],
                        updatedAt := now' \<rparr>)),
               (cleanupCaptionTasks now tasks)(k \<mapsto>
                  task\<lparr> aborted := True, status := CANCELLED, stage := cancelled,
                        message := Some msgCancelled,
                        error := Some [24050, 21462, 28040, 35831, 27714, 12290],
                        updatedAt := now' \<rparr>))"
    using cancel_handler_live [of req k tasks task now now', OF assms live]
    by (simp add: msgCancelledError_def)
next
  assume a: "(status task = SUCCESS \<or> status task = FAILURE \<or> status task = CANCELLED)
            \<and> now - updatedAt task \<le> 60 * 60 * 1000"
  then have fin: "finished (status task)" and fresh: "now - updatedAt task \<le> 3600000"
    by (simp_all add: finished_def)
  note t = cancel_handler_terminal [of req k tasks task now now', OF assms fin fresh]
  show "handleCaptionCancel now now' req tasks =
              (JsonSnapshot (snapshotCaptionTask task), cleanupCaptionTasks now tasks)"
    using t by simp
  show "snd (handleCaptionCancel now now' req tasks) k = Some task"
    using t by simp
next
  assume a: "(status task = SUCCESS \<or> status task = FAILURE \<or> status task = CANCELLED)
            \<and> now - updatedAt task > 60 * 60 * 1000"
  then have fin: "finished (status task)" and old: "now - updatedAt task > 3600000"
    by (simp_all add: finished_def)
  note t = cancel_handler_expired [of req k tasks task now now', OF assms fin old]
  show "handleCaptionCancel now now' req tasks =
              (JsonError 404 msgTaskNotFound, cleanupCaptionTasks now tasks)"
    using t by simp
  show "snd (handleCaptionCancel now now' req tasks) k = None"
    using t by simp
next
  fix task'
  assume a: "snd (handleCaptionCancel now now' req tasks) k = Some task'
              \<and> later - updatedAt task' \<le> 60 * 60 * 1000"
  then have reg: "snd (handleCaptionCancel now now' req tasks) k = Some task'"
    and fresh: "later - updatedAt task' \<le> 3600000"
    by simp_all
  have first: "fst (handleCaptionCancel now now' req tasks) = JsonSnapshot (snapshotCaptionTask task')
               \<and> finished (status task')"
  proof (cases "finished (status task)")
    case False
    then have live: "status task = WAITING \<or> status task = RUNNING"
      by (simp add: finished_cases)
    from cancel_handler_live [of req k tasks task now now', OF assms live] reg
    show ?thesis by (auto simp: finished_def)
  next
    case True
    show ?thesis
    proof (cases "now - updatedAt task \<le> 3600000")
      case True
      from cancel_handler_terminal [of req k tasks task now now', OF assms \<open>finished (status task)\<close> True]
        reg \<open>finished (status task)\<close>
      show ?thesis by simp
    next
      case False
      then have "now - updatedAt task > 3600000" by simp
      from cancel_handler_expired [of req k tasks task now now', OF assms \<open>finished (status task)\<close> this]
        reg
      show ?thesis by simp
    qed
  qed
  note t = cancel_handler_terminal
             [of req k "snd (handleCaptionCancel now now' req tasks)" task' later later',
              OF assms(1,2,3) reg conjunct2 [OF first] fresh]
  show "fst (handleCaptionCancel later later' req
                   (snd (handleCaptionCancel now now' req tasks)))
              = fst (handleCaptionCancel now now' req tasks)"
    using t first by simp
  show "snd (handleCaptionCancel later later' req
                     (snd (handleCaptionCancel now now' req tasks))) k = Some task'"
    using t by simp
qed

text \<open>
  The running task \<open>b\<close> of the example registry is cancelled by a POST request at time
  10; a second request at time 20 answers the same snapshot.
\<close>

theorem cancel_sets_cancelled_and_is_idempotent_witness:
  "fst (handleCaptionCancel 10 11 (exampleTaskRequest ''b'') exampleRegistry)
     = JsonSnapshot \<lparr> taskId = str ''b'', status = CANCELLED, stage = cancelled,
         message = Some msgCancelled,
         transcript = None, error = Some [24050, 21462, 28040, 35831, 27714, 12290],
         publicFileUrl = None, createdAt = 0, updatedAt = 11 \<rparr>
   \<and> fst (handleCaptionCancel 20 21 (exampleTaskRequest ''b'')
            (snd (handleCaptionCancel 10 11 (exampleTaskRequest ''b'') exampleRegistry)))
     = fst (handleCaptionCancel 10 11 (exampleTaskRequest ''b'') exampleRegistry)"
proof -
  let ?b = "exampleTask (str ''b'') RUNNING polling 0"
  let ?c = "?b\<lparr> aborted := True, status := CANCELLED, stage := cancelled,
                  message := Some msgCancelled,
                  error := Some [24050, 21462, 28040, 35831, 27714, 12290],
                  updatedAt := 11 \<rparr>"
  have p: "isPost (exampleTaskRequest ''b'')"
    by (simp add: isPost_def exampleTaskRequest_def)
  have k: "cancelTaskId (exampleTaskRequest ''b'') = str ''b''"
    by (simp add: cancelTaskId_def exampleTaskRequest_def orEmpty_def)
  have n: "str ''b'' \<noteq> []" by simp
  have r: "exampleRegistry (str ''b'') = Some ?b"
    by (simp add: exampleRegistry_def)
  have st: "status ?b = RUNNING" by (simp add: exampleTask_def)
  note c = cancel_sets_cancelled_and_is_idempotent
      [where req = "exampleTaskRequest ''b''" and k = "str ''b''" and tasks = exampleRegistry
         and task = ?b and now = 10 and now' = 11 and later = 20 and later' = 21, OF p k n r]
  from c st have first:
    "handleCaptionCancel 10 11 (exampleTaskRequest ''b'') exampleRegistry =
       (JsonSnapshot (snapshotCaptionTask ?c),
        (cleanupCaptionTasks 10 exampleRegistry)(str ''b'' \<mapsto> ?c))"
    by blast
  have reg: "snd (handleCaptionCancel 10 11 (exampleTaskRequest ''b'') exampleRegistry) (str ''b'')
               = Some ?c \<and> 20 - updatedAt ?c \<le> 60 * 60 * 1000"
    by (simp add: first)
  from c reg have second:
    "fst (handleCaptionCancel 20 21 (exampleTaskRequest ''b'')
            (snd (handleCaptionCancel 10 11 (exampleTaskRequest ''b'') exampleRegistry)))
     = fst (handleCaptionCancel 10 11 (exampleTaskRequest ''b'') exampleRegistry)"
    by blast
  show ?thesis
    using second by (simp add: first snapshotCaptionTask_def exampleTask_def)
qed

text \<open>
  The finished task \<open>a\<close> of the example registry, last updated at time 0, is cancelled at
  3,600,001 ms: the registry holds it when the handler is called, the answer is 404 and
  the task is gone. And the running task \<open>b\<close>, cancelled at time 10, is cancelled again
  at 3,600,012 ms: the second answer is 404, not the snapshot of the first.
\<close>

theorem cancel_expired_task_counterexample:
  "exampleRegistry (str ''a'') = Some (exampleTask (str ''a'') SUCCESS done_stage 0)
   \<and> fst (handleCaptionCancel 3600001 3600002 (exampleTaskRequest ''a'') exampleRegistry)
       = JsonError 404 msgTaskNotFound
   \<and> snd (handleCaptionCancel 3600001 3600002 (exampleTaskRequest ''a'') exampleRegistry)
       (str ''a'') = None
   \<and> fst (handleCaptionCancel 3600012 3600013 (exampleTaskRequest ''b'')
            (snd (handleCaptionCancel 10 11 (exampleTaskRequest ''b'') exampleRegistry)))
       = JsonError 404 msgTaskNotFound"
  by (simp add: handleCaptionCancel_def cancelTask_def cancelTaskId_def isPost_def
        exampleTaskRequest_def exampleRegistry_def exampleTask_def cleanupCaptionTasks_def
        CAPTION_TASK_TTL_MS_def finished_def orEmpty_def Let_def)

section \<open>The stage callback after a cancel\<close>

lemmas server_defs =
  handleCaptionCreate_def createTask_def
  exampleCreateRequest_def exampleUpstream_def exampleServer_def
  isPost_def orEmpty_def chooseProvider_def
  assertSafeDouyinUrl_def assertSafeExternalHttpUrl_def safeUrlHost_def
  captionJob_def transcribeWithDoubaoBigasrFlash_def update_def
  cleanupCaptionTasks_def CAPTION_TASK_TTL_MS_def finished_def
  trim_def isWhiteSpace_def toLowerCase_def toUpperCase_def endsWith_def str_def
  Let_def newError_def

text \<open>
  Claim C2, at the failing run. The Doubao job of task \<open>t1\<close> is RUNNING in stage
  uploading and waits for \<^verbatim>\<open>readFile\<close>; the client cancels, and the task is CANCELLED
  with its signal aborted. \<^verbatim>\<open>readFile\<close> and the removal of the temporary directory
  settle, \<^verbatim>\<open>extractMp3FromVideoBuffer\<close> returns without reading the signal again, and
  the adapter calls \<^verbatim>\<open>onStage('submitting', ...)\<close>: the \<^verbatim>\<open>update\<close> closure sets the
  cancelled task's status back to RUNNING. Only when the recognition request is rejected
  does the \<^verbatim>\<open>catch\<close> block set CANCELLED again.
\<close>

theorem cancelled_task_is_set_running_by_stage_callback:
  "map_option (\<lambda>t. (status t, stage t, aborted t)) (captionTasks runToReadFile (str ''t1''))
     = Some (RUNNING, uploading, False)
   \<and> map_option (\<lambda>t. (status t, stage t, aborted t)) (captionTasks runCancelled (str ''t1''))
     = Some (CANCELLED, cancelled, True)
   \<and> map_option (\<lambda>t. (status t, stage t, aborted t)) (captionTasks runAfterCleanup (str ''t1''))
     = Some (RUNNING, submitting, True)
   \<and> map_option (\<lambda>t. (status t, stage t, aborted t)) (captionTasks runAfterAbort (str ''t1''))
     = Some (CANCELLED, cancelled, True)"
  by (simp add: server_defs runAfterCleanup_def runCancelled_def runToReadFile_def
        runAfterAbort_def deliver_def handleCaptionCancel_def cancelTask_def cancelTaskId_def
        exampleTaskRequest_def okResponse_def noCaptionMeta_def
        extractMp3FromVideoBuffer_def)

section \<open>A job that fails before its first await\<close>

text \<open>
  The play address is on the local machine, so the Flash adapter throws in its first
  line. The create handler still answers with the task as created, WAITING and queued:
  the job's \<^verbatim>\<open>catch\<close> block runs one turn later and sets FAILURE.
\<close>

lemma create_replies_before_the_job_fails:
  "fst (handleCaptionCreate decimalToNumber exampleParaformer 0 0 exampleCreateRequest
          localPlayUpstream exampleServer)
     = JsonSnapshot \<lparr> taskId = str ''t1'', status = WAITING, stage = queued,
         message = Some msgCreated, transcript = None, error = None, publicFileUrl = None,
         createdAt = 0, updatedAt = 0 \<rparr>"
  "map_option snapshotCaptionTask
     (captionTasks
        (deliver 1 (str ''t1'') NextTurn
           (snd (handleCaptionCreate decimalToNumber exampleParaformer 0 0 exampleCreateRequest
                   localPlayUpstream exampleServer))) (str ''t1''))
     = Some \<lparr> taskId = str ''t1'', status = FAILURE, stage = failed,
         message = Some msgFailed, transcript = None, error = Some msgUnsafeLink,
         publicFileUrl = None, createdAt = 0, updatedAt = 1 \<rparr>"
  by (simp_all add: server_defs localPlayUpstream_def deliver_def captionJob_def
        transcribeWithDoubaoBigasrFlash_def assertSafeExternalHttpUrl_def
        assertSafeDouyinUrl_def safeUrlHost_def chooseProvider_def isPost_def
        cleanupCaptionTasks_def snapshotCaptionTask_def newError_def
        msgUnsafeLink_def msgCancelledError_def
        toLowerCase_def endsWith_def orEmpty_def trim_def isWhiteSpace_def str_def Let_def)

section \<open>Creating a task for a video that has a caption\<close>

lemma trim_nonempty: "trim c \<noteq> [] \<Longrightarrow> c \<noteq> []"
  by (auto simp: trim_def)

lemma create_handler:
  assumes "reachesMetadata req env" and "videoMeta env = Inr meta"
  shows "\<exists>prov appId token.
           handleCaptionCreate toNumber paraformer now now' req env sv =
             createTask toNumber paraformer now' prov appId token env meta
               (sv\<lparr> captionTasks := cleanupCaptionTasks now (captionTasks sv) \<rparr>)"
proof -
  from assms(1) obtain b where b: "body req = Some b"
    by (auto simp: reachesMetadata_def split: option.splits)
  from assms(1) b obtain u where u: "assertSafeDouyinUrl (normalizedUrl env) = Inr u"
    by (auto simp: reachesMetadata_def split: sum.splits)
  show ?thesis
    using assms b u
    by (auto simp: handleCaptionCreate_def reachesMetadata_def Let_def split: if_splits)
qed

lemma create_with_caption:
  assumes "caption meta = Some c" and "trim c \<noteq> []"
  shows "createTask toNumber paraformer now' prov appId token env meta sv =
           (JsonSnapshot
              \<lparr> taskId = uuid env, status = SUCCESS, stage = done_stage,
                message = Some msgCaptionFound, transcript = Some (trim c), error = None,
                publicFileUrl = None, createdAt = now', updatedAt = now' \<rparr>,
            sv\<lparr> captionTasks := (captionTasks sv)(uuid env \<mapsto>
              \<lparr> taskId = uuid env, status = SUCCESS, stage = done_stage,
                message = Some msgCaptionFound, transcript = Some (trim c), error = None,
                publicFileUrl = None, createdAt = now', updatedAt = now', aborted = False \<rparr>) \<rparr>)"
  using assms trim_nonempty [OF assms(2)]
  by (simp add: createTask_def Let_def orEmpty_def snapshotCaptionTask_def)

text \<open>
  Claim C4, as amended. The metadata fetched for a create request carries a caption that
  is not empty once trimmed. Then the handler, on the server state as it is when the
  metadata arrives, answers at once with a snapshot in status SUCCESS and stage done
  whose transcript is the trimmed caption, registers that task under the new id, and
  starts no job: no adapter runs. For a request that passes every check made before the
  metadata is fetched, that is the answer of the whole handler, on the swept registry.
\<close>

theorem create_reuses_caption:
  assumes "caption meta = Some c" and "trim c \<noteq> []"
  shows "createTask toNumber paraformer now' prov appId token env meta sv =
           (JsonSnapshot
              \<lparr> taskId = uuid env, status = SUCCESS, stage = done_stage,
                message = Some msgCaptionFound, transcript = Some (trim c), error = None,
                publicFileUrl = None, createdAt = now', updatedAt = now' \<rparr>,
            sv\<lparr> captionTasks := (captionTasks sv)(uuid env \<mapsto>
              \<lparr> taskId = uuid env, status = SUCCESS, stage = done_stage,
                message = Some msgCaptionFound, transcript = Some (trim c), error = None,
                publicFileUrl = None, createdAt = now', updatedAt = now', aborted = False \<rparr>) \<rparr>)
         \<and> jobs (snd (createTask toNumber paraformer now' prov appId token env meta sv)) = jobs sv
         \<and> (reachesMetadata req env \<and> videoMeta env = Inr meta \<longrightarrow>
              handleCaptionCreate toNumber paraformer now now' req env sv =
                (JsonSnapshot
                   \<lparr> taskId = uuid env, status = SUCCESS, stage = done_stage,
                     message = Some msgCaptionFound, transcript = Some (trim c), error = None,
                     publicFileUrl = None, createdAt = now', updatedAt = now' \<rparr>,
                 sv\<lparr> captionTasks := (cleanupCaptionTasks now (captionTasks sv))(uuid env \<mapsto>
                   \<lparr> taskId = uuid env, status = SUCCESS, stage = done_stage,
                     message = Some msgCaptionFound, transcript = Some (trim c), error = None,
                     publicFileUrl = None, createdAt = now', updatedAt = now',
                     aborted = False \<rparr>) \<rparr>))"
proof (intro conjI impI)
  show c1: "createTask toNumber paraformer now' prov appId token env meta sv =
           (JsonSnapshot
              \<lparr> taskId = uuid env, status = SUCCESS, stage = done_stage,
                message = Some msgCaptionFound, transcript = Some (trim c), error = None,
                publicFileUrl = None, createdAt = now', updatedAt = now' \<rparr>,
            sv\<lparr> captionTasks := (captionTasks sv)(uuid env \<mapsto>
              \<lparr> taskId = uuid env, status = SUCCESS, stage = done_stage,
                message = Some msgCaptionFound, transcript = Some (trim c), error = None,
                publicFileUrl = None, createdAt = now', updatedAt = now', aborted = False \<rparr>) \<rparr>)"
    by (rule create_with_caption [OF assms])
  show "jobs (snd (createTask toNumber paraformer now' prov appId token env meta sv)) = jobs sv"
    unfolding c1 by simp
next
  assume "reachesMetadata req env \<and> videoMeta env = Inr meta"
  then have r: "reachesMetadata req env" and m: "videoMeta env = Inr meta" by simp_all
  from create_handler [OF r m, of toNumber paraformer now now' sv]
  obtain prov' appId' token' where
    h: "handleCaptionCreate toNumber paraformer now now' req env sv =
          createTask toNumber paraformer now' prov' appId' token' env meta
            (sv\<lparr> captionTasks := cleanupCaptionTasks now (captionTasks sv) \<rparr>)"
    by blast
  show "handleCaptionCreate toNumber paraformer now now' req env sv =
                (JsonSnapshot
                   \<lparr> taskId = uuid env, status = SUCCESS, stage = done_stage,
                     message = Some msgCaptionFound, transcript = Some (trim c), error = None,
                     publicFileUrl = None, createdAt = now', updatedAt = now' \<rparr>,
                 sv\<lparr> captionTasks := (cleanupCaptionTasks now (captionTasks sv))(uuid env \<mapsto>
                   \<lparr> taskId = uuid env, status = SUCCESS, stage = done_stage,
                     message = Some msgCaptionFound, transcript = Some (trim c), error = None,
                     publicFileUrl = None, createdAt = now', updatedAt = now',
                     aborted = False \<rparr>) \<rparr>)"
    unfolding h by (simp add: create_with_caption [OF assms])
qed

lemmas create_example_defs =
  reachesMetadata_def exampleCreateRequest_def exampleUpstream_def isPost_def
  chooseProvider_def assertSafeDouyinUrl_def safeUrlHost_def orEmpty_def
  trim_def isWhiteSpace_def toLowerCase_def toUpperCase_def endsWith_def str_def Let_def

text \<open>The caption " hi " gives a finished task with transcript "hi".\<close>

theorem create_reuses_caption_witness:
  "fst (handleCaptionCreate decimalToNumber exampleParaformer 0 1 exampleCreateRequest
          (exampleUpstream captionMeta) exampleServer)
     = JsonSnapshot
         \<lparr> taskId = str ''t1'', status = SUCCESS, stage = done_stage,
           message = Some msgCaptionFound, transcript = Some (str ''hi''), error = None,
           publicFileUrl = None, createdAt = 1, updatedAt = 1 \<rparr>
   \<and> jobs (snd (handleCaptionCreate decimalToNumber exampleParaformer 0 1 exampleCreateRequest
                  (exampleUpstream captionMeta) exampleServer)) = Map.empty"
proof -
  have r: "reachesMetadata exampleCreateRequest (exampleUpstream captionMeta)"
    by (simp add: create_example_defs)
  have m: "videoMeta (exampleUpstream captionMeta) = Inr captionMeta"
    by (simp add: exampleUpstream_def)
  have c: "caption captionMeta = Some (str '' hi '')"
    by (simp add: captionMeta_def)
  have t: "trim (str '' hi '') = str ''hi''"
    by (simp add: trim_def isWhiteSpace_def str_def)
  then have n: "trim (str '' hi '') \<noteq> []" by simp
  from create_reuses_caption [OF c n, where req = exampleCreateRequest
         and env = "exampleUpstream captionMeta" and toNumber = decimalToNumber
         and paraformer = exampleParaformer and now = 0 and now' = 1 and sv = exampleServer]
       r m
  show ?thesis
    by (simp add: t exampleUpstream_def exampleServer_def)
qed

text \<open>
  The claim as stated fails for a caption that is not empty but blank: with the caption
  " " and a play address, the handler starts the Doubao job and answers RUNNING.
\<close>

theorem create_blank_caption_counterexample:
  "reachesMetadata exampleCreateRequest (exampleUpstream blankCaptionMeta)
   \<and> videoMeta (exampleUpstream blankCaptionMeta) = Inr blankCaptionMeta
   \<and> caption blankCaptionMeta = Some [32] \<and> [32::nat] \<noteq> []
   \<and> fst (handleCaptionCreate decimalToNumber exampleParaformer 0 1 exampleCreateRequest
            (exampleUpstream blankCaptionMeta) exampleServer)
       = JsonSnapshot
           \<lparr> taskId = str ''t1'', status = RUNNING, stage = downloading,
             message = Some msgDownloading, transcript = None, error = None,
             publicFileUrl = None, createdAt = 1, updatedAt = 1 \<rparr>
   \<and> map_option pending
        (jobs (snd (handleCaptionCreate decimalToNumber exampleParaformer 0 1
                      exampleCreateRequest (exampleUpstream blankCaptionMeta) exampleServer))
           (str ''t1'')) = Some True"
  by (simp add: server_defs reachesMetadata_def blankCaptionMeta_def snapshotCaptionTask_def)

section \<open>The SSRF guard\<close>

lemma guard_accepts_iff:
  "assertSafeExternalHttpUrl (Some u) = Inr u' \<longleftrightarrow>
     u' = u
     \<and> (toLowerCase (protocol u) = str ''http:'' \<or> toLowerCase (protocol u) = str ''https:'')
     \<and> toLowerCase (hostname u)
           \<notin> {str ''localhost'', str ''0.0.0.0'', str ''127.0.0.1'', str ''::1''}
     \<and> \<not> endsWith (toLowerCase (hostname u)) (str ''.local'')"
  by (auto simp: assertSafeExternalHttpUrl_def Let_def)

text \<open>
  Claim C1, at the failing input. \<^verbatim>\<open>assertSafeExternalHttpUrl\<close> rejects
  \<^verbatim>\<open>http://127.0.0.1/x\<close> and a non-http(s) scheme, but it returns the parsed URL of
  \<^verbatim>\<open>http://169.254.169.254/\<close>: the link-local address is not among the hosts it
  compares with. The IPv6 loopback passes too: the \<^verbatim>\<open>hostname\<close> of
  \<^verbatim>\<open>http://[::1]/\<close> keeps its brackets and is compared with \<^verbatim>\<open>::1\<close>.
\<close>

theorem link_local_address_passes_the_guard:
  "assertSafeExternalHttpUrl
     (Some \<lparr> protocol = str ''http:'', hostname = str ''169.254.169.254'',
             href = str ''http://169.254.169.254/'' \<rparr>)
     = Inr \<lparr> protocol = str ''http:'', hostname = str ''169.254.169.254'',
             href = str ''http://169.254.169.254/'' \<rparr>
   \<and> assertSafeExternalHttpUrl
     (Some \<lparr> protocol = str ''http:'', hostname = str ''127.0.0.1'',
             href = str ''http://127.0.0.1/x'' \<rparr>)
     = Inl (newError msgUnsafeLink)
   \<and> assertSafeExternalHttpUrl
     (Some \<lparr> protocol = str ''ftp:'', hostname = str ''example.com'',
             href = str ''ftp://example.com/'' \<rparr>)
     = Inl (newError msgHttpOnly)
   \<and> assertSafeExternalHttpUrl
     (Some \<lparr> protocol = str ''http:'', hostname = str ''[::1]'',
             href = str ''http://[::1]/'' \<rparr>)
     = Inr \<lparr> protocol = str ''http:'', hostname = str ''[::1]'',
             href = str ''http://[::1]/'' \<rparr>"
  by (simp add: assertSafeExternalHttpUrl_def Let_def toLowerCase_def endsWith_def str_def)


section \<open>The business status of the Flash recognizer\<close>

lemma flash_business_failure:
  assumes "ok apiRes" and "xApiStatusCode apiRes = Some h" and "h \<noteq> []"
      and "jsNumber toNumber h \<noteq> NaN" and "jsNumber toNumber h \<noteq> Fin 0"
      and "jsNumber toNumber h \<noteq> Fin 20000000"
  shows "\<exists>e. flashResult toNumber apiRes apiText parsed = Inl e"
  using assms by (auto simp: flashResult_def Let_def orEmpty_def truthyNum_def)

lemma flash_empty_text:
  assumes "trim (orEmpty (Option.bind (if apiText = [] then None else parsed) resultText)) = []"
  shows "\<exists>e. flashResult toNumber apiRes apiText parsed = Inl e"
  using assms by (auto simp: flashResult_def Let_def)

lemma flash_success_status_empty_text:
  assumes "ok apiRes" and "xApiStatusCode apiRes = Some h" and "h \<noteq> []"
      and "jsNumber toNumber h = Fin 20000000"
      and "trim (orEmpty (Option.bind (if apiText = [] then None else parsed) resultText)) = []"
  shows "flashResult toNumber apiRes apiText parsed =
           Inl (newError (msgFlashEmpty @ logidSuffix (orEmpty (xTtLogid apiRes))))"
  using assms by (auto simp: flashResult_def Let_def orEmpty_def)

lemma flash_no_status:
  assumes "ok apiRes"
      and "xApiStatusCode apiRes = None \<or> xApiStatusCode apiRes = Some []
           \<or> (\<exists>h. xApiStatusCode apiRes = Some h \<and> jsNumber toNumber h = Fin 0)"
  shows "flashResult toNumber apiRes apiText parsed =
           (if trim (orEmpty (Option.bind (if apiText = [] then None else parsed) resultText)) = []
            then Inl (newError (msgFlashEmpty @ logidSuffix (orEmpty (xTtLogid apiRes))))
            else Inr (trim (orEmpty (Option.bind (if apiText = [] then None else parsed)
                                       resultText))))"
  using assms by (auto simp: flashResult_def Let_def orEmpty_def truthyNum_def jsNumber_def)

text \<open>A header whose value is not numeric is treated like an absent one.\<close>

lemma flash_non_numeric_status:
  assumes "ok apiRes" and "xApiStatusCode apiRes = Some h" and "jsNumber toNumber h = NaN"
  shows "flashResult toNumber apiRes apiText parsed =
           (if trim (orEmpty (Option.bind (if apiText = [] then None else parsed) resultText)) = []
            then Inl (newError (msgFlashEmpty @ logidSuffix (orEmpty (xTtLogid apiRes))))
            else Inr (trim (orEmpty (Option.bind (if apiText = [] then None else parsed)
                                       resultText))))"
  using assms by (auto simp: flashResult_def Let_def orEmpty_def truthyNum_def jsNumber_def)

lemma aborted_update: "aborted (update now s m task) = aborted task"
  by (simp add: update_def)

lemma run_outcome:
  "run (case r of Inl e \<Rightarrow> Throw e | Inr x \<Rightarrow> Return x) now task =
     (case r of Inl e \<Rightarrow> Throw e | Inr x \<Rightarrow> Return x, task)"
  by (cases r) simp_all

lemma flash_adapter_answer:
  assumes "assertSafeExternalHttpUrl videoUrl = Inr safeUrl"
      and "trim (appKey cfg) \<noteq> []" and "trim (accessKey cfg) \<noteq> []"
      and "ok videoRes" and "mp3Bytes \<noteq> 0" and "\<not> aborted task"
  shows "flashOutcome toNumber videoUrl cfg now task
           (recognizerAnswers t videoRes videoBytes err mp3Bytes rm apiRes apiText parsed)
         = (case flashResult toNumber apiRes apiText parsed of
              Inl e \<Rightarrow> Throw e
            | Inr txt \<Rightarrow> Return txt)"
  using assms
  by (simp add: flashOutcome_def transcribeWithDoubaoBigasrFlash_def
        extractMp3FromVideoBuffer_def recognizerAnswers_def aborted_update run_outcome)

lemma example_reaches_recognizer:
  "assertSafeExternalHttpUrl exampleVideoUrl = Inr (the exampleVideoUrl)"
  "trim (appKey exampleConfig) \<noteq> []" "trim (accessKey exampleConfig) \<noteq> []"
  "ok okResponse" "\<not> aborted (exampleTask (str ''t1'') WAITING queued 0)"
  by (simp_all add: assertSafeExternalHttpUrl_def exampleVideoUrl_def exampleConfig_def
        okResponse_def exampleTask_def toLowerCase_def endsWith_def trim_def isWhiteSpace_def
        str_def Let_def)

text \<open>
  Claim C3. The Flash adapter has reached its recognition request, and the response of
  the recognizer is ok (2xx). If the \<^verbatim>\<open>X-Api-Status-Code\<close> header is present and
  converts to a number other than 0 and 20000000, the adapter throws, whatever the body
  says. If the header's value is 20000000 and the text of the result is empty once
  trimmed (or the body has none), the adapter throws the empty-text error; in fact a
  response whose text is empty once trimmed never gives a transcript, whatever its
  status. A header that does not convert to a number (NaN) is treated like an absent
  one: the adapter returns the trimmed text when that is not empty.
\<close>

theorem flash_failure_status_or_empty_text_throws:
  assumes "assertSafeExternalHttpUrl videoUrl = Inr safeUrl"
      and "trim (appKey cfg) \<noteq> []" and "trim (accessKey cfg) \<noteq> []"
      and "ok videoRes" and "mp3Bytes \<noteq> 0" and "\<not> aborted task"
  shows "(ok apiRes \<and> xApiStatusCode apiRes = Some h \<and> h \<noteq> []
            \<and> jsNumber toNumber h \<noteq> NaN \<and> jsNumber toNumber h \<noteq> Fin 0
            \<and> jsNumber toNumber h \<noteq> Fin 20000000
          \<longrightarrow> (\<exists>e. flashOutcome toNumber videoUrl cfg now task
                   (recognizerAnswers t videoRes videoBytes err mp3Bytes rm apiRes apiText parsed)
                 = Throw e))
       \<and> (ok apiRes \<and> xApiStatusCode apiRes = Some h \<and> h \<noteq> []
            \<and> jsNumber toNumber h = Fin 20000000
            \<and> trim (orEmpty (Option.bind (if apiText = [] then None else parsed) resultText)) = []
          \<longrightarrow> flashOutcome toNumber videoUrl cfg now task
                (recognizerAnswers t videoRes videoBytes err mp3Bytes rm apiRes apiText parsed)
              = Throw (newError (msgFlashEmpty @ logidSuffix (orEmpty (xTtLogid apiRes)))))
       \<and> (trim (orEmpty (Option.bind (if apiText = [] then None else parsed) resultText)) = []
          \<longrightarrow> (\<exists>e. flashOutcome toNumber videoUrl cfg now task
                   (recognizerAnswers t videoRes videoBytes err mp3Bytes rm apiRes apiText parsed)
                 = Throw e))
       \<and> (ok apiRes \<and> xApiStatusCode apiRes = Some h \<and> jsNumber toNumber h = NaN
          \<longrightarrow> flashOutcome toNumber videoUrl cfg now task
                (recognizerAnswers t videoRes videoBytes err mp3Bytes rm apiRes apiText parsed)
              = (if trim (orEmpty (Option.bind (if apiText = [] then None else parsed)
                                     resultText)) = []
                 then Throw (newError (msgFlashEmpty @ logidSuffix (orEmpty (xTtLogid apiRes))))
                 else Return (trim (orEmpty (Option.bind (if apiText = [] then None else parsed)
                                               resultText)))))"
proof -
  note run = flash_adapter_answer [OF assms, of toNumber now t videoBytes err rm apiRes apiText
                 parsed]
  show ?thesis
  proof (intro conjI impI)
    assume "ok apiRes \<and> xApiStatusCode apiRes = Some h \<and> h \<noteq> []
            \<and> jsNumber toNumber h \<noteq> NaN \<and> jsNumber toNumber h \<noteq> Fin 0
            \<and> jsNumber toNumber h \<noteq> Fin 20000000"
    then obtain e where "flashResult toNumber apiRes apiText parsed = Inl e"
      using flash_business_failure [of apiRes h toNumber apiText parsed] by blast
    then show "\<exists>e. flashOutcome toNumber videoUrl cfg now task
                   (recognizerAnswers t videoRes videoBytes err mp3Bytes rm apiRes apiText parsed)
                 = Throw e"
      by (simp add: run)
  next
    assume "ok apiRes \<and> xApiStatusCode apiRes = Some h \<and> h \<noteq> []
            \<and> jsNumber toNumber h = Fin 20000000
            \<and> trim (orEmpty (Option.bind (if apiText = [] then None else parsed) resultText)) = []"
    then have "flashResult toNumber apiRes apiText parsed =
                 Inl (newError (msgFlashEmpty @ logidSuffix (orEmpty (xTtLogid apiRes))))"
      using flash_success_status_empty_text [of apiRes h toNumber apiText parsed] by blast
    then show "flashOutcome toNumber videoUrl cfg now task
                (recognizerAnswers t videoRes videoBytes err mp3Bytes rm apiRes apiText parsed)
              = Throw (newError (msgFlashEmpty @ logidSuffix (orEmpty (xTtLogid apiRes))))"
      by (simp add: run)
  next
    assume "trim (orEmpty (Option.bind (if apiText = [] then None else parsed) resultText)) = []"
    then obtain e where "flashResult toNumber apiRes apiText parsed = Inl e"
      using flash_empty_text [of apiText parsed toNumber apiRes] by blast
    then show "\<exists>e. flashOutcome toNumber videoUrl cfg now task
                   (recognizerAnswers t videoRes videoBytes err mp3Bytes rm apiRes apiText parsed)
                 = Throw e"
      by (simp add: run)
  next
    assume "ok apiRes \<and> xApiStatusCode apiRes = Some h \<and> jsNumber toNumber h = NaN"
    then have "flashResult toNumber apiRes apiText parsed =
           (if trim (orEmpty (Option.bind (if apiText = [] then None else parsed) resultText)) = []
            then Inl (newError (msgFlashEmpty @ logidSuffix (orEmpty (xTtLogid apiRes))))
            else Inr (trim (orEmpty (Option.bind (if apiText = [] then None else parsed)
                                       resultText))))"
      using flash_non_numeric_status [of apiRes h toNumber apiText parsed] by blast
    then show "flashOutcome toNumber videoUrl cfg now task
                (recognizerAnswers t videoRes videoBytes err mp3Bytes rm apiRes apiText parsed)
              = (if trim (orEmpty (Option.bind (if apiText = [] then None else parsed)
                                     resultText)) = []
                 then Throw (newError (msgFlashEmpty @ logidSuffix (orEmpty (xTtLogid apiRes))))
                 else Return (trim (orEmpty (Option.bind (if apiText = [] then None else parsed)
                                               resultText))))"
      by (simp add: run)
  qed
qed

lemma decimal_45000001 [simp]: "decimalToNumber (str ''45000001'') = Fin 45000001"
  by (simp add: decimalToNumber_def trim_def isWhiteSpace_def str_def)

lemma decimal_20000000 [simp]: "decimalToNumber (str ''20000000'') = Fin 20000000"
  by (simp add: decimalToNumber_def trim_def isWhiteSpace_def str_def)

lemma str_not_zero [simp]: "str ''45000001'' \<noteq> str ''0''" "str ''20000000'' \<noteq> str ''0''"
  by simp_all

text \<open>
  HTTP 200 with status code 45000001 and a body whose text is "hello": an error. HTTP 200
  with status code 20000000 and a text of two spaces: the empty-text error.
\<close>

theorem flash_failure_status_or_empty_text_throws_witness:
  "(\<exists>e. exampleFlashOutcome (okResponse\<lparr> xApiStatusCode := Some (str ''45000001'') \<rparr>)
           (flashBodyText (str ''hello'')) (flashBody (str ''hello'')) = Throw e)
   \<and> exampleFlashOutcome (okResponse\<lparr> xApiStatusCode := Some (str ''20000000'') \<rparr>)
        (flashBodyText (str ''  '')) (flashBody (str ''  ''))
      = Throw (newError msgFlashEmpty)"
proof -
  let ?bad = "okResponse\<lparr> xApiStatusCode := Some (str ''45000001'') \<rparr>"
  let ?good = "okResponse\<lparr> xApiStatusCode := Some (str ''20000000'') \<rparr>"
  note reach = example_reaches_recognizer
  have bytes: "(500::nat) \<noteq> 0" by simp
  have n1: "jsNumber decimalToNumber (str ''45000001'') = Fin 45000001"
    by (simp add: jsNumber_def)
  have n2: "jsNumber decimalToNumber (str ''20000000'') = Fin 20000000"
    by (simp add: jsNumber_def)
  have blank: "trim (orEmpty (Option.bind (if flashBodyText (str ''  '') = [] then None
                 else flashBody (str ''  '')) resultText)) = []"
    by (simp add: flashBodyText_def flashBody_def orEmpty_def trim_def isWhiteSpace_def str_def)
  have a: "\<exists>e. exampleFlashOutcome ?bad (flashBodyText (str ''hello''))
                 (flashBody (str ''hello'')) = Throw e"
    using flash_failure_status_or_empty_text_throws
            [where apiRes = ?bad and h = "str ''45000001''" and toNumber = decimalToNumber
               and now = 0 and t = int and videoBytes = 1000 and err = "[]" and rm = "Inr ()"
               and apiText = "flashBodyText (str ''hello'')"
               and parsed = "flashBody (str ''hello'')",
             OF reach(1,2,3,4) bytes reach(5)] n1
    by (simp add: okResponse_def exampleFlashOutcome_def exampleAnswers_def)
  have b: "exampleFlashOutcome ?good (flashBodyText (str ''  '')) (flashBody (str ''  ''))
             = Throw (newError (msgFlashEmpty @ logidSuffix (orEmpty (xTtLogid ?good))))"
    using flash_failure_status_or_empty_text_throws
            [where apiRes = ?good and h = "str ''20000000''" and toNumber = decimalToNumber
               and now = 0 and t = int and videoBytes = 1000 and err = "[]" and rm = "Inr ()"
               and apiText = "flashBodyText (str ''  '')"
               and parsed = "flashBody (str ''  '')",
             OF reach(1,2,3,4) bytes reach(5)] n2 blank
    by (simp add: okResponse_def exampleFlashOutcome_def exampleAnswers_def)
  from a b show ?thesis
    by (simp add: okResponse_def orEmpty_def logidSuffix_def)
qed

text \<open>
  HTTP 200 with the header \<^verbatim>\<open>X-Api-Status-Code: ERR\<close> and a body whose text is
  "hello": the header is present, is not zero and differs from 20000000, and the adapter
  returns the transcript "hello".
\<close>

theorem flash_non_numeric_status_counterexample:
  "exampleFlashOutcome (okResponse\<lparr> xApiStatusCode := Some (str ''ERR'') \<rparr>)
     (flashBodyText (str ''hello'')) (flashBody (str ''hello'')) = Return (str ''hello'')"
  by (simp add: exampleFlashOutcome_def exampleAnswers_def flashOutcome_def
        recognizerAnswers_def transcribeWithDoubaoBigasrFlash_def extractMp3FromVideoBuffer_def
        assertSafeExternalHttpUrl_def exampleVideoUrl_def exampleConfig_def okResponse_def
        exampleTask_def toLowerCase_def endsWith_def update_def flashResult_def
        flashBodyText_def flashBody_def orEmpty_def truthyNum_def jsNumber_def
        decimalToNumber_def
        trim_def isWhiteSpace_def str_def Let_def)

text \<open>
  Claim C10. The Flash adapter has reached its recognition request; the response of the
  recognizer is ok (2xx) and has no \<^verbatim>\<open>X-Api-Status-Code\<close> header, or an empty one, or
  one whose numeric value is 0. Then the business status counts as success: the adapter
  returns the trimmed text of the result when that is not empty, and throws the
  empty-text error when it is empty or the body has no text. So the call succeeds
  exactly when the text is not empty once trimmed.
\<close>

theorem flash_absent_status_counts_as_success:
  assumes "assertSafeExternalHttpUrl videoUrl = Inr safeUrl"
      and "trim (appKey cfg) \<noteq> []" and "trim (accessKey cfg) \<noteq> []"
      and "ok videoRes" and "mp3Bytes \<noteq> 0" and "\<not> aborted task"
      and "ok apiRes"
      and "xApiStatusCode apiRes = None \<or> xApiStatusCode apiRes = Some []
           \<or> (\<exists>h. xApiStatusCode apiRes = Some h \<and> jsNumber toNumber h = Fin 0)"
  shows "flashOutcome toNumber videoUrl cfg now task
           (recognizerAnswers t videoRes videoBytes err mp3Bytes rm apiRes apiText parsed)
         = (if trim (orEmpty (Option.bind (if apiText = [] then None else parsed) resultText)) = []
            then Throw (newError (msgFlashEmpty @ logidSuffix (orEmpty (xTtLogid apiRes))))
            else Return (trim (orEmpty (Option.bind (if apiText = [] then None else parsed)
                                          resultText))))
         \<and> ((\<exists>txt. flashOutcome toNumber videoUrl cfg now task
                     (recognizerAnswers t videoRes videoBytes err mp3Bytes rm apiRes apiText
                        parsed) = Return txt) \<longleftrightarrow>
              trim (orEmpty (Option.bind (if apiText = [] then None else parsed) resultText))
                \<noteq> [])"
  using flash_adapter_answer [OF assms(1-6), of toNumber now t videoBytes err rm apiRes apiText
          parsed]
        flash_no_status [OF assms(7,8), of apiText parsed]
  by simp

text \<open>No status header: the text " hi " is returned as "hi", an empty body is an error.\<close>

theorem flash_absent_status_counts_as_success_witness:
  "exampleFlashOutcome okResponse (flashBodyText (str '' hi '')) (flashBody (str '' hi ''))
     = Return (str ''hi'')
   \<and> exampleFlashOutcome okResponse [] None = Throw (newError msgFlashEmpty)"
proof -
  note reach = example_reaches_recognizer
  have bytes: "(500::nat) \<noteq> 0" by simp
  have h: "xApiStatusCode okResponse = None \<or> xApiStatusCode okResponse = Some []
           \<or> (\<exists>h. xApiStatusCode okResponse = Some h \<and> jsNumber decimalToNumber h = Fin 0)"
    by (simp add: okResponse_def)
  have t: "trim (str '' hi '') = str ''hi''"
    by (simp add: trim_def isWhiteSpace_def str_def)
  have e: "trim [] = []" by (simp add: trim_def)
  have ne: "flashBodyText (str '' hi '') \<noteq> []" by (simp add: flashBodyText_def)
  from flash_absent_status_counts_as_success
         [where toNumber = decimalToNumber and now = 0 and t = int and videoBytes = 1000
            and err = "[]" and rm = "Inr ()" and apiText = "flashBodyText (str '' hi '')"
            and parsed = "flashBody (str '' hi '')",
          OF reach(1,2,3,4) bytes reach(5) reach(4) h]
  have a: "exampleFlashOutcome okResponse (flashBodyText (str '' hi ''))
             (flashBody (str '' hi '')) = Return (str ''hi'')"
    by (simp add: orEmpty_def t ne flashBody_def exampleFlashOutcome_def exampleAnswers_def)
  from flash_absent_status_counts_as_success
         [where toNumber = decimalToNumber and now = 0 and t = int and videoBytes = 1000
            and err = "[]" and rm = "Inr ()" and apiText = "[]" and parsed = None,
          OF reach(1,2,3,4) bytes reach(5) reach(4) h]
  have b: "exampleFlashOutcome okResponse [] None = Throw (newError msgFlashEmpty)"
    by (simp add: orEmpty_def e logidSuffix_def okResponse_def exampleFlashOutcome_def
          exampleAnswers_def)
  from a b show ?thesis by simp
qed

section \<open>The session cache\<close>

lemma callGetSession_valid:
  "douyinWebSession st = Some s \<Longrightarrow> now < expiresAt s - 60000 \<Longrightarrow>
   callGetSession now st = (Cached s, st)"
  by (simp add: callGetSession_def)

lemma callGetSession_cold:
  "\<not> sessionValid now st \<Longrightarrow> douyinWebSessionLock st = None \<Longrightarrow>
   callGetSession now st =
     (Started (handshakes st),
      st\<lparr> douyinWebSessionLock := Some (handshakes st), handshakes := handshakes st + 1 \<rparr>)"
  by (auto simp: callGetSession_def sessionValid_def split: option.splits)

lemma callGetSession_join:
  "\<not> sessionValid now st \<Longrightarrow> douyinWebSessionLock st = Some l \<Longrightarrow>
   callGetSession now st = (Joined l, st)"
  by (auto simp: callGetSession_def sessionValid_def split: option.splits)

lemma refresh_expiry:
  "refreshDouyinWebSession h = Inr s \<Longrightarrow> expiresAt s = clock h + 29 * 60 * 1000"
  by (auto simp: refreshDouyinWebSession_def Let_def split: sum.splits if_splits)

lemma getSession_hit:
  "douyinWebSession st = Some s \<Longrightarrow> now < expiresAt s - 60000 \<Longrightarrow>
   getDouyinWebSession now h st = (Inr s, st)"
  by (simp add: getDouyinWebSession_def callGetSession_valid)

lemma getSession_miss:
  "\<not> sessionValid now st \<Longrightarrow>
   getDouyinWebSession now h st =
     (refreshDouyinWebSession h,
      lockReleased (refreshSettled (refreshDouyinWebSession h) (snd (callGetSession now st))))"
  by (auto simp: getDouyinWebSession_def callGetSession_def sessionValid_def Let_def
           split: option.splits)

text \<open>
  Claim C5. While a cached session exists and the clock is before its
  \<^verbatim>\<open>expiresAt\<close> minus 60 seconds, \<^verbatim>\<open>getDouyinWebSession\<close> returns that session and
  leaves the state as it is: no refresh is started, the count of handshakes included.
  Whatever session a call returns is inside its margin at the last clock reading of the
  call: the reading of the check for a cached session, the reading that built it for a
  fresh one. A session returned on a miss expires 29 minutes (1,740,000 ms) after the
  clock reading that built it, and it is the session cached from then on.
\<close>

theorem cached_session_is_reused_within_margin:
  "(douyinWebSession st = Some s \<and> now < expiresAt s - 60000 \<longrightarrow>
      getDouyinWebSession now h st = (Inr s, st))
   \<and> (fst (getDouyinWebSession now h st) = Inr s' \<longrightarrow>
        (if sessionValid now st then now else clock h) < expiresAt s' - 60000)
   \<and> (\<not> sessionValid now st \<and> fst (getDouyinWebSession now h st) = Inr s' \<longrightarrow>
        expiresAt s' = clock h + 29 * 60 * 1000
        \<and> douyinWebSession (snd (getDouyinWebSession now h st)) = Some s'
        \<and> douyinWebSessionLock (snd (getDouyinWebSession now h st)) = None)"
proof (intro conjI impI)
  assume "douyinWebSession st = Some s \<and> now < expiresAt s - 60000"
  then show "getDouyinWebSession now h st = (Inr s, st)"
    by (simp add: getSession_hit)
next
  assume r: "fst (getDouyinWebSession now h st) = Inr s'"
  show "(if sessionValid now st then now else clock h) < expiresAt s' - 60000"
  proof (cases "sessionValid now st")
    case True
    then obtain s where s: "douyinWebSession st = Some s" "now < expiresAt s - 60000"
      by (auto simp: sessionValid_def split: option.splits)
    with r have "s' = s" by (simp add: getSession_hit)
    with s True show ?thesis by simp
  next
    case False
    with r have "refreshDouyinWebSession h = Inr s'" by (simp add: getSession_miss)
    then have "expiresAt s' = clock h + 29 * 60 * 1000" by (rule refresh_expiry)
    with False show ?thesis by simp
  qed
next
  assume a: "\<not> sessionValid now st \<and> fst (getDouyinWebSession now h st) = Inr s'"
  then have cold: "\<not> sessionValid now st"
    and f: "fst (getDouyinWebSession now h st) = Inr s'" by simp_all
  from f have r: "refreshDouyinWebSession h = Inr s'"
    by (simp add: getSession_miss [OF cold])
  then show "expiresAt s' = clock h + 29 * 60 * 1000" by (rule refresh_expiry)
  from r show "douyinWebSession (snd (getDouyinWebSession now h st)) = Some s'"
    by (simp add: getSession_miss [OF cold] lockReleased_def refreshSettled_def)
  from r show "douyinWebSessionLock (snd (getDouyinWebSession now h st)) = None"
    by (simp add: getSession_miss [OF cold] lockReleased_def refreshSettled_def)
qed

lemma exampleHandshake_refresh:
  "refreshDouyinWebSession (exampleHandshake t) =
     Inr \<lparr> cookie = str ''__ac_nonce=n0; __ac_signature=sig; __ac_referer=__ac_blank; ttwid=1'',
           expiresAt = t + 1740000 \<rparr>"
  by (simp add: refreshDouyinWebSession_def exampleHandshake_def orEmpty_def Let_def str_def)

text \<open>
  The cached session expires at 1,740,000: a call at 1,000,000 returns it and the state
  is unchanged; a call at 1,680,000 is past the margin and returns a fresh session that
  expires 29 minutes after 1,690,000.
\<close>

theorem cached_session_is_reused_within_margin_witness:
  "getDouyinWebSession 1000000 (exampleHandshake 1010000) warmSession
     = (Inr \<lparr> cookie = str ''ttwid=1'', expiresAt = 1740000 \<rparr>, warmSession)
   \<and> map_sum id expiresAt (fst (getDouyinWebSession 1680000 (exampleHandshake 1690000) warmSession))
     = Inr 3430000"
proof -
  let ?s = "\<lparr> cookie = str ''ttwid=1'', expiresAt = 1740000 \<rparr>"
  note c = cached_session_is_reused_within_margin
  have w: "douyinWebSession warmSession = Some ?s" by (simp add: warmSession_def)
  have a: "getDouyinWebSession 1000000 (exampleHandshake 1010000) warmSession
             = (Inr ?s, warmSession)"
    using c [of warmSession ?s 1000000 "exampleHandshake 1010000"] w by simp
  have cold: "\<not> sessionValid 1680000 warmSession"
    by (simp add: sessionValid_def warmSession_def)
  obtain s' where s': "fst (getDouyinWebSession 1680000 (exampleHandshake 1690000) warmSession)
                          = Inr s'"
    by (simp add: getSession_miss [OF cold] exampleHandshake_refresh)
  from c [of warmSession ?s 1680000 "exampleHandshake 1690000" s'] cold s'
  have "expiresAt s' = clock (exampleHandshake 1690000) + 29 * 60 * 1000" by blast
  then have "expiresAt s' = 3430000" by (simp add: exampleHandshake_def)
  with s' a show ?thesis by simp
qed

section \<open>Single-flight refresh\<close>

lemma joined_calls:
  "douyinWebSessionLock st = Some l \<Longrightarrow> \<forall>t \<in> set nows. \<not> sessionValid t st \<Longrightarrow>
   callsGetSession nows st = (map (\<lambda>t. Joined l) nows, st)"
  by (induction nows) (simp_all add: callGetSession_join)

text \<open>
  Claim C6. No refresh is in flight and the cache holds no valid session at any of the
  times at which the callers call. Then the first call starts a refresh, the one
  handshake, and every further call made before that refresh settles returns the promise
  of that same refresh: the calls end as one \<open>Started\<close> and then only \<open>Joined\<close> of the
  same refresh, and the count of handshakes has grown by exactly one.
\<close>

theorem cold_cache_calls_share_one_refresh:
  assumes "douyinWebSessionLock st = None"
      and "\<forall>t \<in> set (now # nows). \<not> sessionValid t st"
  shows "callsGetSession (now # nows) st =
           (Started (handshakes st) # map (\<lambda>t. Joined (handshakes st)) nows,
            st\<lparr> douyinWebSessionLock := Some (handshakes st),
                handshakes := handshakes st + 1 \<rparr>)"
proof -
  let ?st' = "st\<lparr> douyinWebSessionLock := Some (handshakes st),
                   handshakes := handshakes st + 1 \<rparr>"
  from assms have first: "callGetSession now st = (Started (handshakes st), ?st')"
    by (simp add: callGetSession_cold)
  have lock: "douyinWebSessionLock ?st' = Some (handshakes st)" by simp
  have cold: "\<forall>t \<in> set nows. \<not> sessionValid t ?st'"
    using assms(2) by (simp add: sessionValid_def)
  show ?thesis
    using joined_calls [OF lock cold] first by simp
qed

text \<open>Three calls against the cold cache: one refresh is started, two callers join it.\<close>

theorem cold_cache_calls_share_one_refresh_witness:
  "fst (callsGetSession [1000, 1001, 1002] coldSession) = [Started 0, Joined 0, Joined 0]
   \<and> handshakes (snd (callsGetSession [1000, 1001, 1002] coldSession)) = 1"
proof -
  have l: "douyinWebSessionLock coldSession = None" by (simp add: coldSession_def)
  have c: "\<forall>t \<in> set [1000, 1001, 1002]. \<not> sessionValid t coldSession"
    by (simp add: sessionValid_def coldSession_def)
  from cold_cache_calls_share_one_refresh [OF l c]
  show ?thesis by (simp add: coldSession_def)
qed


section \<open>Listing an account's videos\<close>
































end
